theory Spec2Isabelle
  imports Complex_Main "HOL-Library.Sublist" "HOL-Library.Product_Lexorder"
begin

text \<open>
  A shallow embedding of the recommendation core of UziVerse: the similarity functions of
  \<open>src/lib/audio-analysis.js\<close>, the content-based composite and the hybrid engine of
  \<open>src/lib/recommendation-engine.js\<close>, and the feature and genre predictor of
  \<open>src/lib/ai-prediction.js\<close>. Definitions come first, in the order of the sources; the
  properties follow.
\<close>

section \<open>JavaScript values\<close>

text \<open>
  JavaScript numbers are modelled as the reals (rounding and overflow of IEEE doubles are
  idealised away, except in \<open>cosineSimilarityRounded\<close> below, which takes the rounding as a
  parameter). The one non-real value the scoring code can produce from real inputs is
  \<open>NaN\<close>, from \<open>0 / 0\<close>; it is kept as a value of its own wherever the source can compute it.
\<close>

datatype jsnum = Num real | NaN

fun jadd :: "jsnum \<Rightarrow> jsnum \<Rightarrow> jsnum" where
  "jadd (Num a) (Num b) = Num (a + b)"
| "jadd _ _ = NaN"

fun jmul :: "jsnum \<Rightarrow> jsnum \<Rightarrow> jsnum" where
  "jmul (Num a) (Num b) = Num (a * b)"
| "jmul _ _ = NaN"

text \<open>\<open>a / b\<close> for finite \<open>a\<close>, \<open>b\<close> with \<open>a \<ge> 0\<close> or \<open>b \<noteq> 0\<close>: only \<open>0 / 0\<close> is modelled as
  NaN; the callers below never divide a non-zero number by zero.\<close>

fun jdiv :: "jsnum \<Rightarrow> jsnum \<Rightarrow> jsnum" where
  "jdiv (Num a) (Num b) = (if b = 0 then NaN else Num (a / b))"
| "jdiv _ _ = NaN"

text \<open>\<open>Math.max(0, Math.min(1, x))\<close>: NaN in, NaN out.\<close>

fun clamp01 :: "jsnum \<Rightarrow> jsnum" where
  "clamp01 (Num a) = Num (max 0 (min 1 a))"
| "clamp01 NaN = NaN"


text \<open>
  A plain object with numeric-or-null properties is an association list in insertion order
  (the order of \<open>Object.keys\<close>). A JavaScript object has each key once.
\<close>

type_synonym obj = "(string \<times> real option) list"

definition keys :: "obj \<Rightarrow> string list" where
  "keys f = map fst f"

text \<open>\<open>f[k]\<close> when it is a number; \<open>None\<close> stands for null and undefined alike.\<close>

definition getNum :: "obj \<Rightarrow> string \<Rightarrow> real option" where
  "getNum f k = (case map_of f k of Some (Some v) \<Rightarrow> Some v | _ \<Rightarrow> None)"

definition isNumber :: "obj \<Rightarrow> string \<Rightarrow> bool" where
  "isNumber f k = (getNum f k \<noteq> None)"

text \<open>The numeric reading of \<open>f[k]\<close>; used only on keys where \<open>isNumber\<close> holds.\<close>

definition num :: "obj \<Rightarrow> string \<Rightarrow> real" where
  "num f k = (case getNum f k of Some v \<Rightarrow> v | None \<Rightarrow> 0)"

section \<open>audio-analysis.js\<close>

definition commonKeys :: "obj \<Rightarrow> obj \<Rightarrow> string list" where
  "commonKeys features1 features2 =
     filter (\<lambda>key. isNumber features1 key \<and> isNumber features2 key) (keys features1)"

definition cosineSimilarity :: "obj \<Rightarrow> obj \<Rightarrow> real" where
  "cosineSimilarity features1 features2 =
     (let ks = commonKeys features1 features2 in
      if ks = [] then 0
      else
        let dotProduct = (\<Sum>key\<leftarrow>ks. num features1 key * num features2 key);
            norm1 = (\<Sum>key\<leftarrow>ks. num features1 key * num features1 key);
            norm2 = (\<Sum>key\<leftarrow>ks. num features2 key * num features2 key)
        in if norm1 = 0 \<or> norm2 = 0 then 0
           else dotProduct / (sqrt norm1 * sqrt norm2))"

text \<open>
  A song as the scoring code reads it: the row's columns, the related genre and mood names
  (\<open>song.genres.map(g => g.name)\<close>; \<open>None\<close> when the relation was not loaded), and the
  optional nested \<open>audioFeatures\<close> object that \<open>audio-analysis.js\<close> looks at.
\<close>

record song =
  song_id :: string
  title :: string
  artist :: string
  year :: "int option"
  energy :: "real option"
  danceability :: "real option"
  valence :: "real option"
  tempo :: "real option"
  acousticness :: "real option"
  instrumentalness :: "real option"
  liveness :: "real option"
  speechiness :: "real option"
  loudness :: "real option"
  mode :: "real option"
  key :: "real option"
  timeSignature :: "real option"
  audioFeatures :: "obj option"
  genres :: "string list option"
  moods :: "string list option"
  popularity :: "real option"
  totalPlays :: int
  avgRating :: "real option"

text \<open>\<open>song[key]\<close> for a feature column name.\<close>

definition column :: "song \<Rightarrow> string \<Rightarrow> real option" where
  "column s k =
     (if k = ''energy'' then energy s
      else if k = ''danceability'' then danceability s
      else if k = ''valence'' then valence s
      else if k = ''tempo'' then tempo s
      else if k = ''acousticness'' then acousticness s
      else if k = ''instrumentalness'' then instrumentalness s
      else if k = ''liveness'' then liveness s
      else if k = ''speechiness'' then speechiness s
      else if k = ''loudness'' then loudness s
      else if k = ''mode'' then mode s
      else if k = ''key'' then key s
      else if k = ''timeSignature'' then timeSignature s
      else None)"

text \<open>The documented \<open>(min, max)\<close> of every audio feature (\<open>normalizeFeatures\<close>, and again
  in \<open>cleanSongData\<close>).\<close>

definition ranges :: "(string \<times> real \<times> real) list" where
  "ranges =
     [(''energy'', 0, 1), (''danceability'', 0, 1), (''valence'', 0, 1),
      (''acousticness'', 0, 1), (''instrumentalness'', 0, 1), (''liveness'', 0, 1),
      (''speechiness'', 0, 1), (''tempo'', 50, 200), (''loudness'', -60, 0),
      (''mode'', 0, 1), (''key'', 0, 11), (''timeSignature'', 3, 7)]"

text \<open>
  \<open>normalizeFeatures\<close> copies the object and, for every range key holding a number, stores
  the clamped \<open>(v - min) / (max - min)\<close>. Keys and their order are unchanged, so the loop over
  the range table is a map over the properties.
\<close>

definition normalizeFeatures :: "obj \<Rightarrow> obj" where
  "normalizeFeatures features =
     map (\<lambda>(k, v). case (v, map_of ranges k) of
                       (Some x, Some (lo, hi)) \<Rightarrow> (k, Some (max 0 (min 1 ((x - lo) / (hi - lo)))))
                     | _ \<Rightarrow> (k, v)) features"

text \<open>The optional \<open>weights\<close> argument and \<open>{ ...defaultWeights, ...weights }\<close>.\<close>

record weights =
  w_audioFeatures :: "real option"
  w_genre :: "real option"
  w_mood :: "real option"
  w_popularity :: "real option"

definition noWeights :: weights where
  "noWeights = \<lparr>w_audioFeatures = None, w_genre = None, w_mood = None, w_popularity = None\<rparr>"

definition orDefault :: "real \<Rightarrow> real option \<Rightarrow> real" where
  "orDefault d v = (case v of Some x \<Rightarrow> x | None \<Rightarrow> d)"

text \<open>\<open>commonTags.length / Math.max(names1.length, names2.length)\<close>: NaN for two empty arrays.\<close>

definition tagOverlap :: "string list \<Rightarrow> string list \<Rightarrow> jsnum" where
  "tagOverlap names1 names2 =
     jdiv (Num (real (length (filter (\<lambda>g. g \<in> set names2) names1))))
          (Num (real (max (length names1) (length names2))))"

text \<open>\<open>1 - Math.abs((song1.popularity || 0) - (song2.popularity || 0)) / 100\<close>\<close>

definition popularityScore :: "song \<Rightarrow> song \<Rightarrow> real" where
  "popularityScore song1 song2 =
     (let popularity1 = orDefault 0 (popularity song1);
          popularity2 = orDefault 0 (popularity song2);
          popularityDiff = \<bar>popularity1 - popularity2\<bar> / 100
      in 1 - popularityDiff)"

definition calculateAdvancedSimilarity :: "song \<Rightarrow> song \<Rightarrow> weights \<Rightarrow> jsnum" where
  "calculateAdvancedSimilarity song1 song2 ws =
     (let wAudio = orDefault (6/10) (w_audioFeatures ws);
          wGenre = orDefault (2/10) (w_genre ws);
          wMood = orDefault (1/10) (w_mood ws);
          wPopularity = orDefault (1/10) (w_popularity ws);
          totalScore0 = Num 0;
          totalScore1 =
            (case (audioFeatures song1, audioFeatures song2) of
               (Some a1, Some a2) \<Rightarrow>
                 jadd totalScore0
                   (Num (cosineSimilarity (normalizeFeatures a1) (normalizeFeatures a2) * wAudio))
             | _ \<Rightarrow> totalScore0);
          totalScore2 =
            (case (genres song1, genres song2) of
               (Some g1, Some g2) \<Rightarrow> jadd totalScore1 (jmul (tagOverlap g1 g2) (Num wGenre))
             | _ \<Rightarrow> totalScore1);
          totalScore3 =
            (case (moods song1, moods song2) of
               (Some m1, Some m2) \<Rightarrow> jadd totalScore2 (jmul (tagOverlap m1 m2) (Num wMood))
             | _ \<Rightarrow> totalScore2);
          totalScore4 = jadd totalScore3 (Num (popularityScore song1 song2 * wPopularity))
      in clamp01 totalScore4)"

section \<open>recommendation-engine.js: ContentBasedFiltering\<close>

definition positive :: "real option \<Rightarrow> bool" where
  "positive v = (case v of Some x \<Rightarrow> 0 < x | None \<Rightarrow> False)"

definition hasAudioFeatures :: "song \<Rightarrow> bool" where
  "hasAudioFeatures s = (positive (energy s) \<and> positive (danceability s) \<and> positive (valence s))"

definition hasGenres :: "song \<Rightarrow> bool" where
  "hasGenres s = (case genres s of Some gs \<Rightarrow> 0 < length gs | None \<Rightarrow> False)"

definition hasMoods :: "song \<Rightarrow> bool" where
  "hasMoods s = (case moods s of Some ms \<Rightarrow> 0 < length ms | None \<Rightarrow> False)"

definition featureKeys :: "string list" where
  "featureKeys = [''energy'', ''danceability'', ''valence'', ''tempo'', ''acousticness'',
                  ''instrumentalness'', ''liveness'', ''speechiness'']"

definition extractAvailableFeatures :: "song \<Rightarrow> obj" where
  "extractAvailableFeatures s =
     map (\<lambda>k. (k, column s k)) (filter (\<lambda>k. positive (column s k)) featureKeys)"

definition calculatePartialAudioSimilarity :: "song \<Rightarrow> song \<Rightarrow> real" where
  "calculatePartialAudioSimilarity song1 song2 =
     (let features1 = extractAvailableFeatures song1;
          features2 = extractAvailableFeatures song2;
          commonFeatures = filter (\<lambda>k. isNumber features2 k) (keys features1)
      in if commonFeatures = [] then 0
         else (\<Sum>feature\<leftarrow>commonFeatures.
                 1 - min \<bar>num features1 feature - num features2 feature\<bar> 1)
              / real (length commonFeatures))"

text \<open>\<open>String.prototype.toLowerCase\<close> on ASCII letters and \<open>String.prototype.includes\<close>.\<close>

definition toLowerChar :: "char \<Rightarrow> char" where
  "toLowerChar c =
     (case map_of (zip ''ABCDEFGHIJKLMNOPQRSTUVWXYZ'' ''abcdefghijklmnopqrstuvwxyz'') c of
        Some l \<Rightarrow> l
      | None \<Rightarrow> c)"

definition toLowerCase :: "string \<Rightarrow> string" where
  "toLowerCase s = map toLowerChar s"

fun str_includes :: "string \<Rightarrow> string \<Rightarrow> bool" where
  "str_includes [] pat = (pat = [])"
| "str_includes (c # cs) pat = (prefix pat (c # cs) \<or> str_includes cs pat)"

definition cbf_predictGenresFromMetadata :: "song \<Rightarrow> string list" where
  "cbf_predictGenresFromMetadata s =
     (let predictions0 = (if str_includes (toLowerCase (artist s)) ''uzi'' then [''Trap'', ''Hip-Hop''] else []);
          predictions1 = (case year s of
                            Some y \<Rightarrow> if y \<noteq> 0 \<and> 2015 \<le> y then predictions0 @ [''Rap''] else predictions0
                          | None \<Rightarrow> predictions0)
      in if 0 < length predictions1 then predictions1 else [''Unknown''])"

text \<open>\<open>song.energy && song.energy > 0.7\<close>\<close>

definition above :: "real option \<Rightarrow> real \<Rightarrow> bool" where
  "above v t = (case v of Some x \<Rightarrow> x \<noteq> 0 \<and> t < x | None \<Rightarrow> False)"

definition cbf_predictMoodsFromMetadata :: "song \<Rightarrow> string list" where
  "cbf_predictMoodsFromMetadata s =
     (let predictions =
            (if above (energy s) (7/10) then [''Energetic''] else []) @
            (if above (valence s) (6/10) then [''Happy''] else []) @
            (if above (danceability s) (7/10) then [''Danceable''] else [])
      in if 0 < length predictions then predictions else [''Neutral''])"

text \<open>The guarded overlap shared by the four genre and mood similarity methods.\<close>

definition guardedOverlap :: "string list \<Rightarrow> string list \<Rightarrow> real" where
  "guardedOverlap names1 names2 =
     (if length names1 = 0 \<or> length names2 = 0 then 0
      else real (length (filter (\<lambda>g. g \<in> set names2) names1))
           / real (max (length names1) (length names2)))"

text \<open>Called only when both songs have a non-empty \<open>genres\<close> array.\<close>

definition calculateGenreSimilarity :: "song \<Rightarrow> song \<Rightarrow> real" where
  "calculateGenreSimilarity song1 song2 =
     guardedOverlap (case genres song1 of Some g \<Rightarrow> g | None \<Rightarrow> [])
                    (case genres song2 of Some g \<Rightarrow> g | None \<Rightarrow> [])"

definition calculateMoodSimilarity :: "song \<Rightarrow> song \<Rightarrow> real" where
  "calculateMoodSimilarity song1 song2 =
     guardedOverlap (case moods song1 of Some m \<Rightarrow> m | None \<Rightarrow> [])
                    (case moods song2 of Some m \<Rightarrow> m | None \<Rightarrow> [])"

text \<open>\<open>song.genres?.map(g => g.name) || this.predictGenresFromMetadata(song)\<close>: an empty array
  is truthy, so only a missing relation is predicted.\<close>

definition calculateGenreSimilarityWithPredictions :: "song \<Rightarrow> song \<Rightarrow> real" where
  "calculateGenreSimilarityWithPredictions song1 song2 =
     (let genres1 = (case genres song1 of Some g \<Rightarrow> g | None \<Rightarrow> cbf_predictGenresFromMetadata song1);
          genres2 = (case genres song2 of Some g \<Rightarrow> g | None \<Rightarrow> cbf_predictGenresFromMetadata song2)
      in guardedOverlap genres1 genres2)"

definition calculateMoodSimilarityWithPredictions :: "song \<Rightarrow> song \<Rightarrow> real" where
  "calculateMoodSimilarityWithPredictions song1 song2 =
     (let moods1 = (case moods song1 of Some m \<Rightarrow> m | None \<Rightarrow> cbf_predictMoodsFromMetadata song1);
          moods2 = (case moods song2 of Some m \<Rightarrow> m | None \<Rightarrow> cbf_predictMoodsFromMetadata song2)
      in guardedOverlap moods1 moods2)"

text \<open>
  \<open>calculateEnhancedSimilarity\<close> keeps two accumulators. \<open>weightSum\<close> is a sum of positive
  constants, at least 0.2, so the final \<open>weightSum > 0\<close> test always takes the division; the
  audio score is the whole \<open>calculateAdvancedSimilarity\<close> of the pair and may be NaN.
\<close>

definition calculateEnhancedSimilarity :: "song \<Rightarrow> song \<Rightarrow> jsnum" where
  "calculateEnhancedSimilarity song1 song2 =
     (let totalScore0 = Num 0; weightSum0 = (0::real);
          (totalScore1, weightSum1) =
            (if hasAudioFeatures song1 \<and> hasAudioFeatures song2 then
               (jadd totalScore0 (jmul (calculateAdvancedSimilarity song1 song2 noWeights) (Num (5/10))),
                weightSum0 + 5/10)
             else if hasAudioFeatures song1 \<or> hasAudioFeatures song2 then
               (jadd totalScore0 (Num (calculatePartialAudioSimilarity song1 song2 * (5/10) * (5/10))),
                weightSum0 + (5/10) * (5/10))
             else (totalScore0, weightSum0));
          (totalScore2, weightSum2) =
            (if hasGenres song1 \<and> hasGenres song2 then
               (jadd totalScore1 (Num (calculateGenreSimilarity song1 song2 * (2/10))),
                weightSum1 + 2/10)
             else if hasGenres song1 \<or> hasGenres song2 then
               (jadd totalScore1 (Num (calculateGenreSimilarityWithPredictions song1 song2 * (2/10) * (7/10))),
                weightSum1 + (2/10) * (7/10))
             else (totalScore1, weightSum1));
          (totalScore3, weightSum3) =
            (if hasMoods song1 \<and> hasMoods song2 then
               (jadd totalScore2 (Num (calculateMoodSimilarity song1 song2 * (1/10))),
                weightSum2 + 1/10)
             else if hasMoods song1 \<or> hasMoods song2 then
               (jadd totalScore2 (Num (calculateMoodSimilarityWithPredictions song1 song2 * (1/10) * (7/10))),
                weightSum2 + (1/10) * (7/10))
             else (totalScore2, weightSum2));
          artistScore = (if artist song1 = artist song2 then 1 else 0 :: real);
          totalScore4 = jadd totalScore3 (Num (artistScore * (1/10)));
          weightSum4 = weightSum3 + 1/10;
          totalScore5 = jadd totalScore4 (Num (popularityScore song1 song2 * (1/10)));
          weightSum5 = weightSum4 + 1/10
      in if 0 < weightSum5 then clamp01 (jdiv totalScore5 (Num weightSum5)) else Num 0)"

section \<open>Comparable songs\<close>




text \<open>
  JavaScript numbers are doubles: every product, sum, square root and quotient is the exact
  result rounded. \<open>cosineSimilarityRounded\<close> is the loop of \<open>cosineSimilarity\<close> with a rounding
  \<open>rnd\<close> applied after each operation, the three accumulators starting at 0 and growing in the
  order of the keys; with \<open>rnd\<close> the identity it is \<open>cosineSimilarity\<close>.
\<close>

definition cosineSimilarityRounded :: "(real \<Rightarrow> real) \<Rightarrow> obj \<Rightarrow> obj \<Rightarrow> real" where
  "cosineSimilarityRounded rnd features1 features2 =
     (let ks = commonKeys features1 features2 in
      if ks = [] then 0
      else
        let dotProduct =
              foldl (\<lambda>acc key. rnd (acc + rnd (num features1 key * num features2 key))) 0 ks;
            norm1 = foldl (\<lambda>acc key. rnd (acc + rnd (num features1 key * num features1 key))) 0 ks;
            norm2 = foldl (\<lambda>acc key. rnd (acc + rnd (num features2 key * num features2 key))) 0 ks
        in if norm1 = 0 \<or> norm2 = 0 then 0
           else rnd (dotProduct / rnd (rnd (sqrt norm1) * rnd (sqrt norm2))))"




text \<open>A song with nothing filled in, the base of the concrete songs below.\<close>

definition blankSong :: song where
  "blankSong = \<lparr>song_id = ''song'', title = ''untitled'', artist = ''unknown'', year = None,
     energy = None, danceability = None, valence = None, tempo = None, acousticness = None,
     instrumentalness = None, liveness = None, speechiness = None, loudness = None,
     mode = None, key = None, timeSignature = None, audioFeatures = None,
     genres = None, moods = None, popularity = None, totalPlays = 0, avgRating = None\<rparr>"

text \<open>Two songs with partly overlapping data.\<close>

definition songA :: song where
  "songA = blankSong\<lparr>song_id := ''a'', title := ''XO Tour Llif3'', artist := ''Lil Uzi Vert'',
     year := Some 2017, energy := Some (3/4), danceability := Some (7/10), valence := Some (2/5),
     tempo := Some 155,
     audioFeatures := Some [(''energy'', Some (3/4)), (''tempo'', Some 155), (''valence'', None)],
     genres := Some [''Trap'', ''Hip-Hop''], moods := Some [''Energetic''],
     popularity := Some 90\<rparr>"

definition songB :: song where
  "songB = blankSong\<lparr>song_id := ''b'', title := ''Money Longer'', artist := ''Lil Uzi Vert'',
     energy := Some (3/5), tempo := Some 140,
     audioFeatures := Some [(''energy'', Some (3/5)), (''tempo'', Some 140)],
     genres := Some [''Hip-Hop'', ''Rap''],
     popularity := Some 70\<rparr>"

section \<open>The partial-credit rule as the specification words it\<close>

text \<open>
  The specification's rule for a weighted composite: a factor whose inputs are absent on one
  or both songs is left out of the weighted sum, and its weight is left out of the normalising
  denominator. A factor is (counted, score, weight); the rule counts a factor when it is
  present on both songs.
\<close>

type_synonym factor = "bool \<times> jsnum \<times> real"

definition weightedSum :: "factor list \<Rightarrow> jsnum" where
  "weightedSum fs = foldl jadd (Num 0) (map (\<lambda>(p, s, w). jmul s (Num w)) (filter fst fs))"

definition weightTotal :: "factor list \<Rightarrow> real" where
  "weightTotal fs = sum_list (map (\<lambda>(p, s, w). w) (filter fst fs))"

definition spec_partialCredit :: "factor list \<Rightarrow> jsnum" where
  "spec_partialCredit fs = jdiv (weightedSum fs) (Num (weightTotal fs))"

text \<open>The factors of \<open>calculateEnhancedSimilarity\<close>, each with the score the code gives it when
  both songs carry its inputs.\<close>

definition enhancedFactors :: "song \<Rightarrow> song \<Rightarrow> factor list" where
  "enhancedFactors song1 song2 =
     [(hasAudioFeatures song1 \<and> hasAudioFeatures song2,
         calculateAdvancedSimilarity song1 song2 noWeights, 5/10),
      (hasGenres song1 \<and> hasGenres song2, Num (calculateGenreSimilarity song1 song2), 2/10),
      (hasMoods song1 \<and> hasMoods song2, Num (calculateMoodSimilarity song1 song2), 1/10),
      (True, Num (if artist song1 = artist song2 then 1 else 0), 1/10),
      (True, Num (popularityScore song1 song2), 1/10)]"

text \<open>
  The factors of \<open>calculateEnhancedSimilarity\<close> as the code includes them: a factor counts as
  soon as one of the two songs carries its inputs. Carried by one song only, it is scored by the
  metadata fallback and its weight is multiplied by 0.5 (audio) or 0.7 (genre, mood), in the sum
  and in the denominator alike.
\<close>

definition reducedFactors :: "song \<Rightarrow> song \<Rightarrow> factor list" where
  "reducedFactors song1 song2 =
     [(hasAudioFeatures song1 \<or> hasAudioFeatures song2,
         (if hasAudioFeatures song1 \<and> hasAudioFeatures song2
          then calculateAdvancedSimilarity song1 song2 noWeights
          else Num (calculatePartialAudioSimilarity song1 song2)),
         (if hasAudioFeatures song1 \<and> hasAudioFeatures song2 then 5/10 else (5/10) * (5/10))),
      (hasGenres song1 \<or> hasGenres song2,
         (if hasGenres song1 \<and> hasGenres song2
          then Num (calculateGenreSimilarity song1 song2)
          else Num (calculateGenreSimilarityWithPredictions song1 song2)),
         (if hasGenres song1 \<and> hasGenres song2 then 2/10 else (2/10) * (7/10))),
      (hasMoods song1 \<or> hasMoods song2,
         (if hasMoods song1 \<and> hasMoods song2
          then Num (calculateMoodSimilarity song1 song2)
          else Num (calculateMoodSimilarityWithPredictions song1 song2)),
         (if hasMoods song1 \<and> hasMoods song2 then 1/10 else (1/10) * (7/10))),
      (True, Num (if artist song1 = artist song2 then 1 else 0), 1/10),
      (True, Num (popularityScore song1 song2), 1/10)]"

text \<open>The factors of \<open>calculateAdvancedSimilarity\<close> under the merged weights.\<close>

definition advancedFactors :: "song \<Rightarrow> song \<Rightarrow> weights \<Rightarrow> factor list" where
  "advancedFactors song1 song2 ws =
     [(audioFeatures song1 \<noteq> None \<and> audioFeatures song2 \<noteq> None,
         (case (audioFeatures song1, audioFeatures song2) of
            (Some a1, Some a2) \<Rightarrow> Num (cosineSimilarity (normalizeFeatures a1) (normalizeFeatures a2))
          | _ \<Rightarrow> Num 0),
         orDefault (6/10) (w_audioFeatures ws)),
      (genres song1 \<noteq> None \<and> genres song2 \<noteq> None,
         (case (genres song1, genres song2) of
            (Some g1, Some g2) \<Rightarrow> tagOverlap g1 g2 | _ \<Rightarrow> Num 0),
         orDefault (2/10) (w_genre ws)),
      (moods song1 \<noteq> None \<and> moods song2 \<noteq> None,
         (case (moods song1, moods song2) of
            (Some m1, Some m2) \<Rightarrow> tagOverlap m1 m2 | _ \<Rightarrow> Num 0),
         orDefault (1/10) (w_mood ws)),
      (True, Num (popularityScore song1 song2), orDefault (1/10) (w_popularity ws))]"

text \<open>Concrete songs: tagged Trap and nothing else; no data at all, by another artist; tagged
  Pop and nothing else.\<close>

definition trapOnly :: song where
  "trapOnly = blankSong\<lparr>genres := Some [''Trap'']\<rparr>"

definition otherArtist :: song where
  "otherArtist = blankSong\<lparr>artist := ''somebody else''\<rparr>"

definition popOnly :: song where
  "popOnly = blankSong\<lparr>genres := Some [''Pop'']\<rparr>"













section \<open>ai-prediction.js: AIFeaturePredictor\<close>

text \<open>
  The predictor's three \<open>Map\<close>s hold at most five entries: \<open>featureModels\<close> under
  \<open>correlations\<close>, \<open>artists\<close> and \<open>years\<close>, \<open>genreModels\<close> and \<open>moodModels\<close> under \<open>averages\<close>.
  Each entry is an object from a name to a feature object. What the predictor writes to the
  console is kept, as the only trace of which branch \<open>initialize\<close> took.
\<close>

type_synonym models = "(string \<times> obj) list"

datatype console_event =
    Log_Initializing
  | Warn_InsufficientTrainingData
  | Log_InitializingFallback
  | Log_FallbackInitialized
  | Log_Initialized nat
  | Error_Initializing

record predictor =
  fm_correlations :: "models option"
  fm_artists :: "models option"
  fm_years :: "models option"
  gm_averages :: "models option"
  mm_averages :: "models option"
  initialized :: bool
  console :: "console_event list"

text \<open>\<open>new AIFeaturePredictor()\<close>\<close>

definition newPredictor :: predictor where
  "newPredictor = \<lparr>fm_correlations = None, fm_artists = None, fm_years = None,
     gm_averages = None, mm_averages = None, initialized = False, console = []\<rparr>"

definition feats :: "(string \<times> real) list \<Rightarrow> obj" where
  "feats kvs = map (\<lambda>(k, v). (k, Some v)) kvs"

definition fallbackGenreAverages :: models where
  "fallbackGenreAverages =
     [(''Trap'', feats [(''energy'', 8/10), (''danceability'', 7/10), (''valence'', 5/10),
                        (''tempo'', 8/10), (''speechiness'', 6/10)]),
      (''Hip-Hop'', feats [(''energy'', 6/10), (''danceability'', 6/10), (''valence'', 5/10),
                           (''tempo'', 5/10), (''speechiness'', 8/10)]),
      (''R&B'', feats [(''energy'', 5/10), (''danceability'', 7/10), (''valence'', 6/10),
                       (''tempo'', 4/10), (''speechiness'', 3/10)]),
      (''Pop'', feats [(''energy'', 7/10), (''danceability'', 8/10), (''valence'', 7/10),
                       (''tempo'', 6/10), (''speechiness'', 2/10)])]"

definition fallbackMoodAverages :: models where
  "fallbackMoodAverages =
     [(''Energetic'', feats [(''energy'', 8/10), (''danceability'', 7/10), (''valence'', 6/10),
                             (''tempo'', 8/10)]),
      (''Chill'', feats [(''energy'', 3/10), (''danceability'', 5/10), (''valence'', 6/10),
                         (''tempo'', 3/10)]),
      (''Happy'', feats [(''energy'', 6/10), (''danceability'', 7/10), (''valence'', 8/10),
                         (''tempo'', 6/10)]),
      (''Sad'', feats [(''energy'', 3/10), (''danceability'', 4/10), (''valence'', 2/10),
                       (''tempo'', 4/10)]),
      (''Danceable'', feats [(''energy'', 7/10), (''danceability'', 9/10), (''valence'', 7/10),
                             (''tempo'', 7/10)]),
      (''Aggressive'', feats [(''energy'', 9/10), (''danceability'', 6/10), (''valence'', 3/10),
                              (''tempo'', 8/10)])]"

definition fallbackCorrelations :: models where
  "fallbackCorrelations =
     [(''energy'', feats [(''danceability'', 3/10), (''valence'', 4/10), (''tempo'', 2/10)]),
      (''danceability'', feats [(''energy'', 3/10), (''valence'', 5/10), (''tempo'', 1/10)]),
      (''valence'', feats [(''energy'', 4/10), (''danceability'', 5/10), (''tempo'', 1/10)]),
      (''tempo'', feats [(''energy'', 2/10), (''danceability'', 1/10), (''valence'', 1/10)])]"

definition initializeFallbackModels :: "predictor \<Rightarrow> predictor" where
  "initializeFallbackModels p =
     p\<lparr>gm_averages := Some fallbackGenreAverages,
       mm_averages := Some fallbackMoodAverages,
       fm_correlations := Some fallbackCorrelations,
       console := console p @ [Log_InitializingFallback, Log_FallbackInitialized]\<rparr>"

subsection \<open>Training\<close>

text \<open>\<open>v || d\<close> on a nullable number.\<close>

definition orElse :: "real option \<Rightarrow> real \<Rightarrow> real" where
  "orElse v d = (case v of Some x \<Rightarrow> if x = 0 then d else x | None \<Rightarrow> d)"

definition extractAudioFeatures :: "song \<Rightarrow> obj" where
  "extractAudioFeatures s =
     feats [(''energy'', orElse (energy s) 0), (''danceability'', orElse (danceability s) 0),
            (''valence'', orElse (valence s) 0), (''tempo'', orElse (tempo s) 120),
            (''acousticness'', orElse (acousticness s) 0),
            (''instrumentalness'', orElse (instrumentalness s) 0),
            (''liveness'', orElse (liveness s) 0), (''speechiness'', orElse (speechiness s) 0),
            (''loudness'', orElse (loudness s) (-10)), (''mode'', orElse (mode s) 1),
            (''key'', orElse (key s) 0), (''timeSignature'', orElse (timeSignature s) 4)]"

definition calculateAverageFeatures :: "obj list \<Rightarrow> obj" where
  "calculateAverageFeatures featuresArray =
     (case featuresArray of
        [] \<Rightarrow> []
      | first # _ \<Rightarrow>
          concat (map (\<lambda>k.
            let values = concat (map (\<lambda>f. case getNum f k of Some v \<Rightarrow> [v] | None \<Rightarrow> []) featuresArray)
            in if 0 < length values then [(k, Some (sum_list values / real (length values)))] else [])
            (keys first)))"

text \<open>\<open>if (!groups[k]) groups[k] = []; groups[k].push(v)\<close>, keys in order of first use.\<close>

fun pushTo :: "string \<Rightarrow> 'a \<Rightarrow> (string \<times> 'a list) list \<Rightarrow> (string \<times> 'a list) list" where
  "pushTo k v [] = [(k, [v])]"
| "pushTo k v ((k', vs) # rest) =
     (if k = k' then (k', vs @ [v]) # rest else (k', vs) # pushTo k v rest)"

definition getYearRange :: "int \<Rightarrow> string" where
  "getYearRange y =
     (if y < 2000 then ''1990s'' else if y < 2010 then ''2000s''
      else if y < 2020 then ''2010s'' else ''2020s'')"

definition createArtistModels :: "song list \<Rightarrow> models" where
  "createArtistModels trainingData =
     (let artistFeatures =
            foldl (\<lambda>acc s. pushTo (artist s) (extractAudioFeatures s) acc) [] trainingData
      in map (\<lambda>(a, features). (a, calculateAverageFeatures features))
           (filter (\<lambda>(a, features). 3 \<le> length features) artistFeatures))"

text \<open>A nullable integer that is truthy: neither null nor 0.\<close>

definition truthyInt :: "int option \<Rightarrow> int option" where
  "truthyInt y = (case y of Some v \<Rightarrow> if v = 0 then None else Some v | None \<Rightarrow> None)"

definition truthyYear :: "song \<Rightarrow> int option" where
  "truthyYear s = truthyInt (year s)"

definition createYearModels :: "song list \<Rightarrow> models" where
  "createYearModels trainingData =
     (let yearFeatures =
            foldl (\<lambda>acc s. case truthyYear s of
                              Some y \<Rightarrow> pushTo (getYearRange y) (extractAudioFeatures s) acc
                            | None \<Rightarrow> acc) [] trainingData
      in map (\<lambda>(r, features). (r, calculateAverageFeatures features))
           (filter (\<lambda>(r, features). 5 \<le> length features) yearFeatures))"

definition calculateCorrelation :: "real list \<Rightarrow> real list \<Rightarrow> real" where
  "calculateCorrelation x y =
     (if length x \<noteq> length y \<or> length x = 0 then 0
      else
        let n = real (length x);
            sumX = sum_list x; sumY = sum_list y;
            sumXY = (\<Sum>(xi, yi)\<leftarrow>zip x y. xi * yi);
            sumX2 = (\<Sum>xi\<leftarrow>x. xi * xi);
            sumY2 = (\<Sum>yi\<leftarrow>y. yi * yi);
            numerator = n * sumXY - sumX * sumY;
            denominator = sqrt ((n * sumX2 - sumX * sumX) * (n * sumY2 - sumY * sumY))
        in if denominator = 0 then 0 else numerator / denominator)"

definition nonNull :: "real option list \<Rightarrow> real list" where
  "nonNull vs = concat (map (\<lambda>v. case v of Some x \<Rightarrow> [x] | None \<Rightarrow> []) vs)"

definition calculateFeatureCorrelations :: "song list \<Rightarrow> models" where
  "calculateFeatureCorrelations trainingData =
     map (\<lambda>feature.
            (feature,
             map (\<lambda>otherFeature.
                    (otherFeature,
                     Some (calculateCorrelation
                             (nonNull (map (\<lambda>s. column s feature) trainingData))
                             (nonNull (map (\<lambda>s. column s otherFeature) trainingData)))))
               (filter (\<lambda>otherFeature. feature \<noteq> otherFeature) featureKeys)))
       featureKeys"

definition trainFeatureModels :: "song list \<Rightarrow> predictor \<Rightarrow> predictor" where
  "trainFeatureModels trainingData p =
     p\<lparr>fm_correlations := Some (calculateFeatureCorrelations trainingData),
       fm_artists := Some (createArtistModels trainingData),
       fm_years := Some (createYearModels trainingData)\<rparr>"

text \<open>
  Grouping the training songs' feature objects under each of a song's tags.
  \<open>song.genres.map\<close> throws a TypeError on a song whose relation is missing: \<open>None\<close>.
\<close>

fun groupByTags :: "(song \<Rightarrow> string list option) \<Rightarrow> song list \<Rightarrow> (string \<times> obj list) list
                     \<Rightarrow> (string \<times> obj list) list option" where
  "groupByTags tags [] acc = Some acc"
| "groupByTags tags (s # rest) acc =
     (case tags s of
        None \<Rightarrow> None
      | Some names \<Rightarrow>
          groupByTags tags rest (foldl (\<lambda>a n. pushTo n (extractAudioFeatures s) a) acc names))"

definition tagAverages :: "(song \<Rightarrow> string list option) \<Rightarrow> song list \<Rightarrow> models option" where
  "tagAverages tags trainingData =
     map_option (map (\<lambda>(t, features). (t, calculateAverageFeatures features)))
       (groupByTags tags trainingData [])"

definition trainGenreModels :: "song list \<Rightarrow> predictor \<Rightarrow> predictor option" where
  "trainGenreModels trainingData p =
     map_option (\<lambda>genreAverages. p\<lparr>gm_averages := Some genreAverages\<rparr>)
       (tagAverages genres trainingData)"

definition trainMoodModels :: "song list \<Rightarrow> predictor \<Rightarrow> predictor option" where
  "trainMoodModels trainingData p =
     map_option (\<lambda>moodAverages. p\<lparr>mm_averages := Some moodAverages\<rparr>)
       (tagAverages moods trainingData)"

subsection \<open>The song repository\<close>

text \<open>
  The rows the ORM returns. A query on an unreachable database throws; \<open>None\<close> below.
\<close>

record interaction =
  i_userId :: string
  i_songId :: string

record rating =
  r_userId :: string
  r_songId :: string

record db =
  reachable :: bool
  songs :: "song list"
  interactions :: "interaction list"
  ratings :: "rating list"

text \<open>The training query: energy, danceability, valence and tempo all \<open>{ not: null, gt: 0 }\<close>.\<close>

definition featureComplete :: "song \<Rightarrow> bool" where
  "featureComplete s =
     (positive (energy s) \<and> positive (danceability s) \<and> positive (valence s) \<and> positive (tempo s))"

definition findTrainingData :: "db \<Rightarrow> song list option" where
  "findTrainingData d = (if reachable d then Some (filter featureComplete (songs d)) else None)"

text \<open>The \<open>catch\<close> block of \<open>initialize\<close>, entered with the state as mutated so far.\<close>

definition initializeCatch :: "predictor \<Rightarrow> predictor" where
  "initializeCatch p =
     (initializeFallbackModels (p\<lparr>console := console p @ [Error_Initializing]\<rparr>))
       \<lparr>initialized := True\<rparr>"

definition initialize :: "db \<Rightarrow> predictor \<Rightarrow> predictor" where
  "initialize d p =
     (if initialized p then p
      else
        let p0 = p\<lparr>console := console p @ [Log_Initializing]\<rparr> in
        case findTrainingData d of
          None \<Rightarrow> initializeCatch p0
        | Some trainingData \<Rightarrow>
            if length trainingData < 5 then
              (initializeFallbackModels
                 (p0\<lparr>console := console p0 @ [Warn_InsufficientTrainingData]\<rparr>))
                \<lparr>initialized := True\<rparr>
            else
              let p1 = trainFeatureModels trainingData p0 in
              case trainGenreModels trainingData p1 of
                None \<Rightarrow> initializeCatch p1
              | Some p2 \<Rightarrow>
                  (case trainMoodModels trainingData p2 of
                     None \<Rightarrow> initializeCatch p2
                   | Some p3 \<Rightarrow>
                       p3\<lparr>initialized := True,
                          console := console p3 @ [Log_Initialized (length trainingData)]\<rparr>))"

subsection \<open>Predicting one feature\<close>

definition defaults :: "(string \<times> real) list" where
  "defaults =
     [(''energy'', 5/10), (''danceability'', 5/10), (''valence'', 5/10), (''tempo'', 120),
      (''acousticness'', 1/10), (''instrumentalness'', 1/10), (''liveness'', 1/10),
      (''speechiness'', 1/10), (''loudness'', -10), (''mode'', 1), (''key'', 0),
      (''timeSignature'', 4)]"

text \<open>\<open>defaults[featureName] || 0\<close>\<close>

definition getDefaultFeatureValue :: "string \<Rightarrow> real" where
  "getDefaultFeatureValue featureName =
     (case map_of defaults featureName of Some v \<Rightarrow> v | None \<Rightarrow> 0)"

definition adjustPredictionByConfidence :: "real \<Rightarrow> real \<Rightarrow> string \<Rightarrow> real" where
  "adjustPredictionByConfidence prediction confidence featureName =
     (let defaultVal = getDefaultFeatureValue featureName
      in prediction * confidence + defaultVal * (1 - confidence))"

text \<open>
  The ladder of \<open>predictFeature\<close>. \<open>prediction\<close> starts as null and each rung tests
  \<open>!prediction\<close>, true of null and of 0. The state carries, next to \<open>prediction\<close> and
  \<open>confidence\<close>, the rung whose assignment to \<open>prediction\<close> ran last.
\<close>

datatype rung = ArtistRung | YearRung | CorrelationRung | DefaultRung

type_synonym ladder = "real option \<times> real \<times> rung option"

definition falsy :: "real option \<Rightarrow> bool" where
  "falsy prediction = (case prediction of None \<Rightarrow> True | Some v \<Rightarrow> v = 0)"

definition artistRung :: "predictor \<Rightarrow> string \<Rightarrow> song \<Rightarrow> ladder \<Rightarrow> ladder" where
  "artistRung p featureName s st =
     (case fm_artists p of
        None \<Rightarrow> st
      | Some artistModels \<Rightarrow>
          (case map_of artistModels (artist s) of
             None \<Rightarrow> st
           | Some artistFeatures \<Rightarrow>
               (case map_of artistFeatures featureName of
                  None \<Rightarrow> st
                | Some v \<Rightarrow> (v, 8/10, Some ArtistRung))))"

definition yearRung :: "predictor \<Rightarrow> string \<Rightarrow> song \<Rightarrow> ladder \<Rightarrow> ladder" where
  "yearRung p featureName s st =
     (if \<not> falsy (fst st) then st
      else case (fm_years p, truthyYear s) of
             (Some yearModels, Some y) \<Rightarrow>
               (case map_of yearModels (getYearRange y) of
                  None \<Rightarrow> st
                | Some yearFeatures \<Rightarrow>
                    (case map_of yearFeatures featureName of
                       None \<Rightarrow> st
                     | Some v \<Rightarrow> (v, 6/10, Some YearRung)))
           | _ \<Rightarrow> st)"

text \<open>The loop over \<open>Object.entries(featureCorrelation)\<close>: (weightedSum, totalWeight).
  A null reads as 0 in arithmetic.\<close>

definition nullAsZero :: "real option \<Rightarrow> real" where
  "nullAsZero v = (case v of Some x \<Rightarrow> x | None \<Rightarrow> 0)"

definition correlationSums :: "obj \<Rightarrow> obj \<Rightarrow> real \<times> real" where
  "correlationSums featureCorrelation availableFeatures =
     foldl (\<lambda>(weightedSum, totalWeight) (correlatedFeature, correlation).
              case map_of availableFeatures correlatedFeature of
                None \<Rightarrow> (weightedSum, totalWeight)
              | Some v \<Rightarrow> (weightedSum + nullAsZero v * nullAsZero correlation,
                           totalWeight + \<bar>nullAsZero correlation\<bar>))
       (0, 0) featureCorrelation"

definition correlationRung :: "predictor \<Rightarrow> string \<Rightarrow> obj \<Rightarrow> ladder \<Rightarrow> ladder" where
  "correlationRung p featureName availableFeatures st =
     (if \<not> falsy (fst st) then st
      else case fm_correlations p of
             None \<Rightarrow> st
           | Some correlations \<Rightarrow>
               (case map_of correlations featureName of
                  None \<Rightarrow> st
                | Some featureCorrelation \<Rightarrow>
                    (let (weightedSum, totalWeight) =
                           correlationSums featureCorrelation availableFeatures
                     in if 0 < totalWeight
                        then (Some (weightedSum / totalWeight), min totalWeight (7/10),
                              Some CorrelationRung)
                        else st)))"

definition defaultRung :: "string \<Rightarrow> ladder \<Rightarrow> ladder" where
  "defaultRung featureName st =
     (if falsy (fst st) then (Some (getDefaultFeatureValue featureName), 3/10, Some DefaultRung)
      else st)"

definition predictionLadder :: "predictor \<Rightarrow> string \<Rightarrow> obj \<Rightarrow> song \<Rightarrow> ladder" where
  "predictionLadder p featureName availableFeatures s =
     defaultRung featureName
       (correlationRung p featureName availableFeatures
          (yearRung p featureName s
             (artistRung p featureName s (None, 0, None))))"

definition predictFeature :: "predictor \<Rightarrow> string \<Rightarrow> obj \<Rightarrow> song \<Rightarrow> real" where
  "predictFeature p featureName availableFeatures s =
     (case predictionLadder p featureName availableFeatures s of
        (prediction, confidence, r) \<Rightarrow>
          adjustPredictionByConfidence (nullAsZero prediction) confidence featureName)"

text \<open>The twelve columns \<open>predictAudioFeatures\<close> copies, in its order.\<close>

definition audioColumns :: "string list" where
  "audioColumns = [''energy'', ''danceability'', ''valence'', ''tempo'', ''acousticness'',
                   ''instrumentalness'', ''liveness'', ''speechiness'', ''loudness'', ''mode'',
                   ''key'', ''timeSignature'']"

definition missingValue :: "real option \<Rightarrow> bool" where
  "missingValue v = (case v of None \<Rightarrow> True | Some x \<Rightarrow> x = 0)"

text \<open>\<open>predictAudioFeatures\<close> after its \<open>await this.initialize()\<close>.\<close>

definition predictAudioFeaturesWith :: "predictor \<Rightarrow> song \<Rightarrow> obj" where
  "predictAudioFeaturesWith p s =
     (let predictions = map (\<lambda>k. (k, column s k)) audioColumns;
          missingFeatures = filter (\<lambda>k. missingValue (column s k)) audioColumns
      in if length missingFeatures = 0 then predictions
         else
           let availableFeatures = filter (\<lambda>(k, v). \<not> missingValue v) predictions
           in map (\<lambda>(k, v). if missingValue v
                             then (k, Some (predictFeature p k availableFeatures s))
                             else (k, v)) predictions)"

definition predictAudioFeatures :: "db \<Rightarrow> predictor \<Rightarrow> song \<Rightarrow> predictor \<times> obj" where
  "predictAudioFeatures d p s =
     (let p' = initialize d p in (p', predictAudioFeaturesWith p' s))"

subsection \<open>Predicting genres\<close>

definition calculateFeatureSimilarity :: "obj \<Rightarrow> obj \<Rightarrow> real" where
  "calculateFeatureSimilarity features1 features2 =
     (let ks = filter (\<lambda>key. isNumber features1 key \<and> isNumber features2 key) (keys features1) in
      if length ks = 0 then 0
      else
        let dotProduct = (\<Sum>key\<leftarrow>ks. num features1 key * num features2 key);
            norm1 = (\<Sum>key\<leftarrow>ks. num features1 key * num features1 key);
            norm2 = (\<Sum>key\<leftarrow>ks. num features2 key * num features2 key)
        in if norm1 = 0 \<or> norm2 = 0 then 0
           else dotProduct / (sqrt norm1 * sqrt norm2))"

text \<open>Descending stable sort on a numeric field, \<open>xs.sort((a, b) => b.f - a.f)\<close>.\<close>

definition sortDesc :: "('a \<Rightarrow> real) \<Rightarrow> 'a list \<Rightarrow> 'a list" where
  "sortDesc f xs = sort_key (\<lambda>x. - f x) xs"

definition predictGenresFromAudioFeatures :: "obj \<Rightarrow> models \<Rightarrow> (string \<times> real) list" where
  "predictGenresFromAudioFeatures audioFeats genreAverages =
     take 3 (sortDesc snd
       (map (\<lambda>(genre, avgFeatures). (genre, calculateFeatureSimilarity audioFeats avgFeatures))
          genreAverages))"

text \<open>\<open>[...new Set(xs)]\<close>: the first occurrence of each element, in order.\<close>

fun unique :: "'a list \<Rightarrow> 'a list" where
  "unique [] = []"
| "unique (x # xs) = x # unique (filter (\<lambda>y. y \<noteq> x) xs)"

definition aip_predictGenresFromMetadata :: "song \<Rightarrow> string list" where
  "aip_predictGenresFromMetadata s =
     (let artistLower = toLowerCase (artist s);
          titleLower = toLowerCase (title s);
          predictions =
            (if str_includes artistLower ''uzi'' \<or> str_includes artistLower ''vert''
             then [''Trap'', ''Hip-Hop'', ''Rap''] else []) @
            (if str_includes titleLower ''trap'' \<or> str_includes titleLower ''drill''
             then [''Trap''] else []) @
            (if str_includes titleLower ''love'' \<or> str_includes titleLower ''heart''
             then [''R&B'', ''Pop''] else []) @
            (if str_includes titleLower ''party'' \<or> str_includes titleLower ''dance''
             then [''Pop'', ''Dance''] else []) @
            (case truthyYear s of
               Some y \<Rightarrow> if 2015 \<le> y \<and> y \<le> 2020 then [''Trap'', ''Hip-Hop'']
                         else if 2020 \<le> y then [''Rap'', ''Hip-Hop''] else []
             | None \<Rightarrow> [])
      in take 2 (unique predictions))"

definition artistPatterns :: "(string \<times> string list) list" where
  "artistPatterns =
     [(''trap'', [''uzi'', ''vert'', ''carti'', ''thug'', ''future'', ''migos'']),
      (''hip-hop'', [''drake'', ''kendrick'', ''cole'', ''kanye'', ''jay-z'']),
      (''r&b'', [''weeknd'', ''beyonce'', ''rihanna'', ''usher'', ''chris brown'']),
      (''pop'', [''taylor'', ''swift'', ''ariana'', ''grande'', ''justin'', ''bieber''])]"

definition predictGenresFromArtist :: "string \<Rightarrow> string list" where
  "predictGenresFromArtist artistName =
     (let artistLower = toLowerCase artistName
      in map fst (filter (\<lambda>(genre, patterns). list_ex (\<lambda>pattern. str_includes artistLower pattern) patterns)
                    artistPatterns))"

definition predictGenresFromYear :: "int option \<Rightarrow> string list" where
  "predictGenresFromYear yr =
     (case truthyInt yr of
        None \<Rightarrow> []
      | Some y \<Rightarrow>
          if 2010 \<le> y \<and> y \<le> 2015 then [''Hip-Hop'', ''Pop'']
          else if 2015 \<le> y \<and> y \<le> 2020 then [''Trap'', ''Hip-Hop'', ''Rap'']
          else if 2020 \<le> y then [''Rap'', ''Hip-Hop'', ''Trap'']
          else [])"

text \<open>
  A vote's \<open>genre\<close> field is a name, or, for the audio voter, the whole
  \<open>{ genre, confidence }\<close> object (\<open>genre: p\<close>). Used as a property key, a string is itself and
  an object is \<open>[object Object]\<close>.
\<close>

datatype label = Name string | Scored string real

fun propertyKey :: "label \<Rightarrow> string" where
  "propertyKey (Name n) = n"
| "propertyKey (Scored g c) = ''[object Object]''"

text \<open>\<open>if (!scores[k]) scores[k] = 0; scores[k] += confidence\<close>, keys in order of first use.\<close>

fun addScore :: "(string \<times> real) list \<Rightarrow> string \<times> real \<Rightarrow> (string \<times> real) list" where
  "addScore [] (k, c) = [(k, 0 + c)]"
| "addScore ((k', v) # rest) (k, c) =
     (if k = k' then (k', v + c) # rest else (k', v) # addScore rest (k, c))"

definition genreEnsemble :: "models \<Rightarrow> obj \<Rightarrow> song \<Rightarrow> string list" where
  "genreEnsemble genreAverages audioFeats s =
     (let audioPredictions = predictGenresFromAudioFeatures audioFeats genreAverages;
          metadataPredictions = aip_predictGenresFromMetadata s;
          artistPredictions = predictGenresFromArtist (artist s);
          yearPredictions = predictGenresFromYear (year s);
          predictions =
            map (\<lambda>(g, c). (Scored g c, c)) audioPredictions @
            map (\<lambda>g. (Name g, 6/10)) metadataPredictions @
            map (\<lambda>g. (Name g, 7/10)) artistPredictions @
            map (\<lambda>g. (Name g, 5/10)) yearPredictions;
          combinedScores = foldl addScore [] (map (\<lambda>(l, c). (propertyKey l, c)) predictions)
      in map fst (take 2 (sortDesc snd combinedScores)))"

definition predictGenresFromFeatures :: "predictor \<Rightarrow> obj \<Rightarrow> song \<Rightarrow> string list" where
  "predictGenresFromFeatures p audioFeats s =
     (case gm_averages p of
        None \<Rightarrow> aip_predictGenresFromMetadata s
      | Some genreAverages \<Rightarrow> genreEnsemble genreAverages audioFeats s)"

definition predictGenres :: "db \<Rightarrow> predictor \<Rightarrow> song \<Rightarrow> predictor \<times> string list" where
  "predictGenres d p s =
     (let p1 = initialize d p in
      if hasGenres s then (p1, case genres s of Some g \<Rightarrow> g | None \<Rightarrow> [])
      else
        let (p2, audioFeats) = predictAudioFeatures d p1 s
        in (p2, predictGenresFromFeatures p2 audioFeats s))"

text \<open>An empty, reachable repository, and a Lil Uzi Vert song with no year, no audio
  features and no genre tags.\<close>

definition emptyDb :: db where
  "emptyDb = \<lparr>reachable = True, songs = [], interactions = [], ratings = []\<rparr>"

definition uziSong :: song where
  "uziSong = blankSong\<lparr>song_id := ''uzi-1'', title := ''XO Tour Llif3'',
     artist := ''Lil Uzi Vert'', genres := Some []\<rparr>"

text \<open>A song whose only known audio feature is a tempo of 120 BPM.\<close>

definition tempoOnly :: song where
  "tempoOnly = blankSong\<lparr>tempo := Some 120\<rparr>"

text \<open>A repository holding these two songs only: it has no feature-complete song.\<close>

definition sparseDb :: db where
  "sparseDb = \<lparr>reachable = True, songs = [uziSong, tempoOnly], interactions = [], ratings = []\<rparr>"

text \<open>The predictor after \<open>initialize\<close> on such a repository.\<close>

definition fallbackPredictor :: predictor where
  "fallbackPredictor =
     \<lparr>fm_correlations = Some fallbackCorrelations, fm_artists = None, fm_years = None,
      gm_averages = Some fallbackGenreAverages, mm_averages = Some fallbackMoodAverages,
      initialized = True,
      console = [Log_Initializing, Warn_InsufficientTrainingData, Log_InitializingFallback,
                 Log_FallbackInitialized]\<rparr>"

text \<open>A predictor whose artist model for the artist of \<open>blankSong\<close> averages an energy of
  exactly 0 and a danceability of 0.9.\<close>

definition zeroArtistPredictor :: predictor where
  "zeroArtistPredictor =
     fallbackPredictor\<lparr>fm_artists :=
       Some [(''unknown'', feats [(''energy'', 0), (''danceability'', 9/10)])]\<rparr>"

section \<open>recommendation-engine.js: HybridRecommendationEngine\<close>

subsection \<open>Popular songs\<close>

text \<open>
  \<open>getPopularSongs\<close> asks the ORM for the songs ordered by \<open>totalPlays\<close>, then \<open>avgRating\<close>, then
  \<open>popularity\<close>, each descending, and takes \<open>limit\<close> of them. The order is the database's:
  descending, nulls first (PostgreSQL); rows equal on all three keep the table's order here.
\<close>

definition descKey :: "real option \<Rightarrow> nat \<times> real" where
  "descKey v = (case v of None \<Rightarrow> (0, 0) | Some x \<Rightarrow> (1, - x))"

definition popularKey :: "song \<Rightarrow> int \<times> (nat \<times> real) \<times> (nat \<times> real)" where
  "popularKey s = (- totalPlays s, descKey (avgRating s), descKey (popularity s))"

definition findPopular :: "db \<Rightarrow> nat \<Rightarrow> song list option" where
  "findPopular d limit =
     (if reachable d then Some (take limit (sort_key popularKey (songs d))) else None)"

record contentRec =
  cb_song :: song
  cb_similarity :: real
  cb_reason :: string

definition getPopularSongs :: "db \<Rightarrow> nat \<Rightarrow> contentRec list" where
  "getPopularSongs d limit =
     (case findPopular d limit of
        Some found \<Rightarrow>
          map (\<lambda>s. \<lparr>cb_song = s, cb_similarity = 5/10, cb_reason = ''Popular song''\<rparr>) found
      | None \<Rightarrow> [])"

subsection \<open>The scoring passes\<close>

text \<open>
  The three scoring passes the hybrid engine awaits are parameters here:
  \<open>CollaborativeFiltering.findSimilarItems\<close>, \<open>ContentBasedFiltering.getRecommendations\<close> and
  \<open>aiEnhancedEngine.getEnhancedRecommendations\<close>. Each wraps its body in \<open>try/catch\<close> and
  returns a list whatever happens.
\<close>

record collabRec =
  cf_song :: song
  cf_score :: real
  cf_basedOn :: string

record aiRec =
  ai_song :: song
  ai_similarity :: real
  ai_basedOn :: string

record engines =
  findSimilarItems :: "db \<Rightarrow> string \<Rightarrow> nat \<Rightarrow> collabRec list"
  getContentRecommendations :: "db \<Rightarrow> string \<Rightarrow> nat \<Rightarrow> contentRec list"
  getEnhancedRecommendations :: "db \<Rightarrow> string \<Rightarrow> nat \<Rightarrow> aiRec list"

text \<open>The calls an entry point makes, in order: the instrumentation of the scoring passes.\<close>

datatype call =
    Count_interactions
  | Count_ratings
  | Call_findSimilarItems
  | Call_getContentRecommendations
  | Call_getEnhancedRecommendations
  | Call_getPopularSongs nat

subsection \<open>Merging\<close>

datatype details = BasedOn string | Reason string

record combined =
  c_song :: song
  c_score :: real
  c_sources :: "string list"
  c_details :: details

text \<open>A \<open>Map\<close> keyed by song id: \<open>set\<close> on an existing key keeps the key's position.\<close>

type_synonym combinedMap = "(string \<times> combined) list"

fun mapSet :: "string \<Rightarrow> combined \<Rightarrow> combinedMap \<Rightarrow> combinedMap" where
  "mapSet k v [] = [(k, v)]"
| "mapSet k v ((k', v') # rest) =
     (if k = k' then (k', v) # rest else (k', v') # mapSet k v rest)"

definition addCollaborative :: "real \<Rightarrow> combinedMap \<Rightarrow> collabRec \<Rightarrow> combinedMap" where
  "addCollaborative collaborativeWeight m r =
     (let score = cf_score r * collaborativeWeight
      in mapSet (song_id (cf_song r))
           \<lparr>c_song = cf_song r, c_score = score, c_sources = [''collaborative''],
            c_details = BasedOn (cf_basedOn r)\<rparr> m)"

text \<open>The shared body of the content-based, AI-enhanced and popularity loops.\<close>

definition addScored :: "string \<Rightarrow> combinedMap \<Rightarrow> song \<times> real \<times> details \<Rightarrow> combinedMap" where
  "addScored tag m r =
     (case r of (s, score, d) \<Rightarrow>
        (case map_of m (song_id s) of
           Some existing \<Rightarrow>
             mapSet (song_id s)
               (existing\<lparr>c_score := c_score existing + score,
                          c_sources := c_sources existing @ [tag]\<rparr>) m
         | None \<Rightarrow>
             mapSet (song_id s)
               \<lparr>c_song = s, c_score = score, c_sources = [tag], c_details = d\<rparr> m))"

definition combineRecs ::
  "real \<Rightarrow> real \<Rightarrow> real \<Rightarrow> real \<Rightarrow> collabRec list \<Rightarrow> contentRec list \<Rightarrow> aiRec list
     \<Rightarrow> contentRec list \<Rightarrow> combinedMap" where
  "combineRecs collaborativeWeight contentBasedWeight aiEnhancedWeight popularityWeight
     collaborativeRecs contentBasedRecs aiEnhancedRecs popularSongs =
     (let m1 = foldl (addCollaborative collaborativeWeight) [] collaborativeRecs;
          m2 = foldl (addScored ''content-based'') m1
                 (map (\<lambda>r. (cb_song r, cb_similarity r * contentBasedWeight, Reason (cb_reason r)))
                    contentBasedRecs);
          m3 = foldl (addScored ''ai-enhanced'') m2
                 (map (\<lambda>r. (ai_song r, ai_similarity r * aiEnhancedWeight, BasedOn (ai_basedOn r)))
                    aiEnhancedRecs);
          m4 = foldl (addScored ''popularity'') m3
                 (map (\<lambda>r. (cb_song r, cb_similarity r * popularityWeight, Reason (cb_reason r)))
                    popularSongs)
      in m4)"

record recommendation =
  rec_song :: song
  recommendationScore :: real
  rank :: "nat option"
  sources :: "string list"
  details :: details

record options =
  collaborativeWeight :: "real option"
  contentBasedWeight :: "real option"
  aiEnhancedWeight :: "real option"
  popularityWeight :: "real option"
  limit :: "nat option"

definition limitOnly :: "nat \<Rightarrow> options" where
  "limitOnly n = \<lparr>collaborativeWeight = None, contentBasedWeight = None,
     aiEnhancedWeight = None, popularityWeight = None, limit = Some n\<rparr>"

definition finalRecommendations :: "nat \<Rightarrow> combinedMap \<Rightarrow> recommendation list" where
  "finalRecommendations n combinedRecs =
     map (\<lambda>(index, r). \<lparr>rec_song = c_song r, recommendationScore = c_score r,
                          rank = Some (index + 1), sources = c_sources r, details = c_details r\<rparr>)
       (enumerate 0 (take n (sortDesc c_score (map snd combinedRecs))))"

text \<open>The destructuring of \<open>options\<close> with its defaults, and \<open>Math.ceil(limit * 0.2)\<close>, taken
  over the reals.\<close>

definition weightOf :: "real \<Rightarrow> real option \<Rightarrow> real" where
  "weightOf dflt w = (case w of Some x \<Rightarrow> x | None \<Rightarrow> dflt)"

definition limitOf :: "options \<Rightarrow> nat" where
  "limitOf opts = (case limit opts of Some l \<Rightarrow> l | None \<Rightarrow> 20)"

definition popularSlice :: "nat \<Rightarrow> nat" where
  "popularSlice n = nat \<lceil>real n * (2/10)\<rceil>"

text \<open>
  \<open>getRecommendations\<close>: the options are destructured and the four sources are awaited at
  once; nothing else happens before the merge. None of the four rejects, so the outer \<open>catch\<close>
  is never entered.
\<close>

definition getRecommendations ::
  "engines \<Rightarrow> db \<Rightarrow> string \<Rightarrow> options \<Rightarrow> call list \<times> recommendation list" where
  "getRecommendations e d userId opts =
     (let cw = weightOf (3/10) (collaborativeWeight opts);
          cbw = weightOf (3/10) (contentBasedWeight opts);
          aiw = weightOf (3/10) (aiEnhancedWeight opts);
          pw = weightOf (1/10) (popularityWeight opts);
          n = limitOf opts;
          collaborativeRecs = findSimilarItems e d userId n;
          contentBasedRecs = getContentRecommendations e d userId n;
          aiEnhancedRecs = getEnhancedRecommendations e d userId n;
          popularSongs = getPopularSongs d (popularSlice n);
          combinedRecs = combineRecs cw cbw aiw pw collaborativeRecs contentBasedRecs
                           aiEnhancedRecs popularSongs
      in ([Call_findSimilarItems, Call_getContentRecommendations,
           Call_getEnhancedRecommendations, Call_getPopularSongs (popularSlice n)],
          finalRecommendations n combinedRecs))"

text \<open>What one source adds to a song's score: the score it gave the song times the source's
  weight, nothing when the source did not return the song.\<close>

definition contribution :: "('r \<Rightarrow> song) \<Rightarrow> ('r \<Rightarrow> real) \<Rightarrow> real \<Rightarrow> 'r list \<Rightarrow> string \<Rightarrow> real" where
  "contribution songOf scoreOf w rs i =
     (case find (\<lambda>r. song_id (songOf r) = i) rs of Some r \<Rightarrow> scoreOf r * w | None \<Rightarrow> 0)"

definition songIds :: "('r \<Rightarrow> song) \<Rightarrow> 'r list \<Rightarrow> string list" where
  "songIds songOf rs = map (\<lambda>r. song_id (songOf r)) rs"

text \<open>\<open>prisma.userSongInteraction.count\<close> and \<open>prisma.rating.count\<close> for a user.\<close>

definition countInteractions :: "db \<Rightarrow> string \<Rightarrow> nat option" where
  "countInteractions d userId =
     (if reachable d then Some (length (filter (\<lambda>i. i_userId i = userId) (interactions d)))
      else None)"

definition countRatings :: "db \<Rightarrow> string \<Rightarrow> nat option" where
  "countRatings d userId =
     (if reachable d then Some (length (filter (\<lambda>r. r_userId r = userId) (ratings d)))
      else None)"

definition getColdStartRecommendations ::
  "engines \<Rightarrow> db \<Rightarrow> string \<Rightarrow> nat \<Rightarrow> call list \<times> recommendation list" where
  "getColdStartRecommendations e d userId n =
     (case countInteractions d userId of
        None \<Rightarrow> ([Count_interactions], [])
      | Some userInteractions \<Rightarrow>
          (case countRatings d userId of
             None \<Rightarrow> ([Count_interactions, Count_ratings], [])
           | Some userRatings \<Rightarrow>
               if 0 < userInteractions \<or> 0 < userRatings then
                 (case getRecommendations e d userId (limitOnly n) of
                    (calls, recs) \<Rightarrow> ([Count_interactions, Count_ratings] @ calls, recs))
               else
                 ([Count_interactions, Count_ratings, Call_getPopularSongs n],
                  map (\<lambda>r. \<lparr>rec_song = cb_song r, recommendationScore = cb_similarity r,
                              rank = None, sources = [''cold-start''],
                              details = Reason ''Popular songs for new users''\<rparr>)
                    (getPopularSongs d n))))"

text \<open>Two readings of the map used in the proofs: every entry is filed under the id of its
  song, and the score filed under an id (0 when there is none).\<close>

definition keyed :: "combinedMap \<Rightarrow> bool" where
  "keyed m = (\<forall>(k, c) \<in> set m. k = song_id (c_song c))"

definition scoreAt :: "combinedMap \<Rightarrow> string \<Rightarrow> real" where
  "scoreAt m i = (case map_of m i of Some c \<Rightarrow> c_score c | None \<Rightarrow> 0)"

subsection \<open>Concrete requests\<close>

text \<open>The specification's merge scenario: one song that the content-based pass scores 0.4 and
  the collaborative pass 0.6, and a second song only the content-based pass returns.\<close>

definition mergeEngines :: engines where
  "mergeEngines =
     \<lparr>findSimilarItems = (\<lambda>d u n. [\<lparr>cf_song = songA, cf_score = 6/10, cf_basedOn = ''Money Longer''\<rparr>]),
      getContentRecommendations =
        (\<lambda>d u n. [\<lparr>cb_song = songA, cb_similarity = 4/10, cb_reason = ''Content-based match''\<rparr>,
                   \<lparr>cb_song = songB, cb_similarity = 5/10, cb_reason = ''Content-based match''\<rparr>]),
      getEnhancedRecommendations = (\<lambda>d u n. [])\<rparr>"

text \<open>The weights the repository's own route passes for the hybrid algorithm: 0.4, 0.4, the
  default 0.3, and 0.2.\<close>

definition routeOptions :: options where
  "routeOptions = \<lparr>collaborativeWeight = Some (4/10), contentBasedWeight = Some (4/10),
     aiEnhancedWeight = None, popularityWeight = Some (2/10), limit = Some 20\<rparr>"

text \<open>A malformed configuration: a collaborative weight of 2 and a popularity weight of -1,
  the other two left to their defaults.\<close>

definition malformedOptions :: options where
  "malformedOptions = \<lparr>collaborativeWeight = Some 2, contentBasedWeight = None,
     aiEnhancedWeight = None, popularityWeight = Some (- 1), limit = Some 20\<rparr>"

text \<open>A repository of three songs and no user events.\<close>

definition catalogue :: db where
  "catalogue = \<lparr>reachable = True,
     songs = [songB\<lparr>totalPlays := 10\<rparr>, songA\<lparr>totalPlays := 500\<rparr>, uziSong\<lparr>totalPlays := 10\<rparr>],
     interactions = [], ratings = []\<rparr>"

section \<open>Symmetry of the cosine\<close>


section \<open>Symmetry of the composite scores\<close>


























section \<open>The loop under rounding\<close>

lemma foldl_add_sum_list:
  "foldl (\<lambda>acc k. acc + h k) a ks = a + (\<Sum>k\<leftarrow>ks. h k)" for a :: real
  by (induction ks arbitrary: a) (simp_all add: add.assoc)

lemma cosineSimilarityRounded_exact:
  "cosineSimilarityRounded (\<lambda>x. x) f g = cosineSimilarity f g"
  by (simp add: cosineSimilarityRounded_def cosineSimilarity_def Let_def foldl_add_sum_list)














section \<open>Normalisation over the present factors\<close>

lemma jadd_zero_left: "jadd (Num 0) x = x"
  by (cases x) simp_all

lemma calculateAdvancedSimilarity_weightedSum:
  "calculateAdvancedSimilarity a b w = clamp01 (weightedSum (advancedFactors a b w))"
  by (cases "audioFeatures a"; cases "audioFeatures b"; cases "genres a"; cases "genres b";
      cases "moods a"; cases "moods b";
      simp add: calculateAdvancedSimilarity_def weightedSum_def advancedFactors_def jadd_zero_left)

lemma calculateEnhancedSimilarity_partialCredit:
  assumes "hasAudioFeatures a = hasAudioFeatures b" "hasGenres a = hasGenres b"
    "hasMoods a = hasMoods b"
  shows "calculateEnhancedSimilarity a b = clamp01 (spec_partialCredit (enhancedFactors a b))"
  using assms
  by (cases "hasAudioFeatures b"; cases "hasGenres b"; cases "hasMoods b";
      cases "calculateAdvancedSimilarity a b noWeights";
      simp add: calculateEnhancedSimilarity_def spec_partialCredit_def weightedSum_def
        weightTotal_def enhancedFactors_def)

lemma calculateEnhancedSimilarity_reducedFactors:
  "calculateEnhancedSimilarity a b = clamp01 (spec_partialCredit (reducedFactors a b))"
  by (cases "hasAudioFeatures a"; cases "hasAudioFeatures b"; cases "hasGenres a";
      cases "hasGenres b"; cases "hasMoods a"; cases "hasMoods b";
      cases "calculateAdvancedSimilarity a b noWeights";
      simp add: calculateEnhancedSimilarity_def spec_partialCredit_def weightedSum_def
        weightTotal_def reducedFactors_def)

text \<open>
  C1 as stated, at concrete songs. A song tagged Trap against a song by another artist with no
  data: the genre factor is absent on one side, yet the code scores 5/17 where the rule gives
  1/2. The Trap song against itself under \<open>calculateAdvancedSimilarity\<close>: audio and mood are
  absent on both sides, the code returns 0.3 where the rule gives 1.
\<close>

theorem partial_credit_counterexample:
  "calculateEnhancedSimilarity trapOnly otherArtist = Num (5/17)
   \<and> spec_partialCredit (enhancedFactors trapOnly otherArtist) = Num (1/2)
   \<and> calculateAdvancedSimilarity trapOnly trapOnly noWeights = Num (3/10)
   \<and> spec_partialCredit (advancedFactors trapOnly trapOnly noWeights) = Num 1"
proof -
  have 1: "calculateEnhancedSimilarity trapOnly otherArtist = Num (5/17)"
    by (simp add: calculateEnhancedSimilarity_def trapOnly_def otherArtist_def blankSong_def
        hasAudioFeatures_def positive_def hasGenres_def hasMoods_def
        calculateGenreSimilarityWithPredictions_def cbf_predictGenresFromMetadata_def
        guardedOverlap_def popularityScore_def orDefault_def toLowerCase_def toLowerChar_def)
  have 2: "spec_partialCredit (enhancedFactors trapOnly otherArtist) = Num (1/2)"
    by (simp add: spec_partialCredit_def weightedSum_def weightTotal_def enhancedFactors_def
        trapOnly_def otherArtist_def blankSong_def hasAudioFeatures_def positive_def
        hasGenres_def hasMoods_def popularityScore_def orDefault_def)
  have 3: "calculateAdvancedSimilarity trapOnly trapOnly noWeights = Num (3/10)"
    by (simp add: calculateAdvancedSimilarity_def trapOnly_def blankSong_def noWeights_def
        tagOverlap_def popularityScore_def orDefault_def)
  have 4: "spec_partialCredit (advancedFactors trapOnly trapOnly noWeights) = Num 1"
    by (simp add: spec_partialCredit_def weightedSum_def weightTotal_def advancedFactors_def
        trapOnly_def blankSong_def noWeights_def tagOverlap_def popularityScore_def orDefault_def)
  show ?thesis using 1 2 3 4 by simp
qed

text \<open>
  C1, amended. For every pair of songs \<open>calculateEnhancedSimilarity\<close> is the weighted sum over
  the audio, genre and mood factors that at least one of the two songs carries, plus artist and
  popularity, divided by the sum of the weights so used and clamped to [0, 1]; a factor carried
  by one song only is scored by the metadata fallback and enters both sums with its weight
  multiplied by 0.5 (audio) or 0.7 (genre, mood); a factor carried by neither enters neither
  sum. So when each of the three factors is carried by both songs or by neither, the result is
  the rule as stated: the weighted sum over the factors present on both, divided by their
  weights alone. For every pair of songs and any weights \<open>calculateAdvancedSimilarity\<close> leaves
  out of its sum a factor that is not present on both songs and has no denominator: it returns
  the clamped weighted sum.
\<close>

theorem partial_credit_as_coded:
  "calculateEnhancedSimilarity a b = clamp01 (spec_partialCredit (reducedFactors a b))
   \<and> (hasAudioFeatures a = hasAudioFeatures b \<and> hasGenres a = hasGenres b
        \<and> hasMoods a = hasMoods b
      \<longrightarrow> calculateEnhancedSimilarity a b = clamp01 (spec_partialCredit (enhancedFactors a b)))
   \<and> calculateAdvancedSimilarity a b w = clamp01 (weightedSum (advancedFactors a b w))"
  using calculateEnhancedSimilarity_reducedFactors[of a b]
    calculateEnhancedSimilarity_partialCredit[of a b]
    calculateAdvancedSimilarity_weightedSum[of a b w]
  by simp

theorem partial_credit_as_coded_witness:
  "hasAudioFeatures trapOnly = hasAudioFeatures popOnly
   \<and> hasGenres trapOnly = hasGenres popOnly
   \<and> hasMoods trapOnly = hasMoods popOnly
   \<and> calculateEnhancedSimilarity trapOnly popOnly
      = clamp01 (spec_partialCredit (enhancedFactors trapOnly popOnly))
   \<and> calculateEnhancedSimilarity trapOnly popOnly
      = clamp01 (spec_partialCredit (reducedFactors trapOnly popOnly))
   \<and> calculateEnhancedSimilarity trapOnly popOnly = Num (1/2)
   \<and> calculateEnhancedSimilarity trapOnly otherArtist
      = clamp01 (spec_partialCredit (reducedFactors trapOnly otherArtist))
   \<and> clamp01 (spec_partialCredit (reducedFactors trapOnly otherArtist)) = Num (5/17)
   \<and> calculateAdvancedSimilarity trapOnly otherArtist noWeights
      = clamp01 (weightedSum (advancedFactors trapOnly otherArtist noWeights))
   \<and> clamp01 (weightedSum (advancedFactors trapOnly otherArtist noWeights)) = Num (1/10)"
proof -
  have h1: "hasAudioFeatures trapOnly = hasAudioFeatures popOnly"
    by (simp add: hasAudioFeatures_def trapOnly_def popOnly_def blankSong_def)
  have h2: "hasGenres trapOnly = hasGenres popOnly"
    by (simp add: hasGenres_def trapOnly_def popOnly_def blankSong_def)
  have h3: "hasMoods trapOnly = hasMoods popOnly"
    by (simp add: hasMoods_def trapOnly_def popOnly_def blankSong_def)
  have v: "clamp01 (spec_partialCredit (enhancedFactors trapOnly popOnly)) = Num (1/2)"
    by (simp add: spec_partialCredit_def weightedSum_def weightTotal_def enhancedFactors_def
        trapOnly_def popOnly_def blankSong_def hasAudioFeatures_def positive_def
        hasGenres_def hasMoods_def popularityScore_def orDefault_def
        calculateGenreSimilarity_def guardedOverlap_def)
  have r: "clamp01 (spec_partialCredit (reducedFactors trapOnly otherArtist)) = Num (5/17)"
    by (simp add: spec_partialCredit_def weightedSum_def weightTotal_def reducedFactors_def
        trapOnly_def otherArtist_def blankSong_def hasAudioFeatures_def positive_def
        hasGenres_def hasMoods_def popularityScore_def orDefault_def
        calculateGenreSimilarityWithPredictions_def cbf_predictGenresFromMetadata_def
        guardedOverlap_def toLowerCase_def toLowerChar_def)
  have q: "clamp01 (weightedSum (advancedFactors trapOnly otherArtist noWeights)) = Num (1/10)"
    by (simp add: weightedSum_def advancedFactors_def trapOnly_def otherArtist_def
        blankSong_def noWeights_def popularityScore_def orDefault_def)
  note t1 = partial_credit_as_coded[of trapOnly popOnly noWeights]
  note t2 = partial_credit_as_coded[of trapOnly otherArtist noWeights]
  have a: "calculateEnhancedSimilarity trapOnly popOnly
      = clamp01 (spec_partialCredit (enhancedFactors trapOnly popOnly))"
    using t1 h1 h2 h3 by blast
  have b: "calculateEnhancedSimilarity trapOnly popOnly
      = clamp01 (spec_partialCredit (reducedFactors trapOnly popOnly))"
    using t1 by blast
  have c: "calculateEnhancedSimilarity trapOnly otherArtist
      = clamp01 (spec_partialCredit (reducedFactors trapOnly otherArtist))"
    using t2 by blast
  have d: "calculateAdvancedSimilarity trapOnly otherArtist noWeights
      = clamp01 (weightedSum (advancedFactors trapOnly otherArtist noWeights))"
    using t2 by blast
  have e: "calculateEnhancedSimilarity trapOnly popOnly = Num (1/2)"
    using a v by (rule trans)
  show ?thesis
    using h1 h2 h3 a b c d e r q by blast
qed

section \<open>Removing data from a pair\<close>


























section \<open>The prediction ladder\<close>

lemma defaultRung_cases:
  "defaultRung f st = (v, c, r) \<Longrightarrow> r \<noteq> Some DefaultRung \<Longrightarrow> v \<noteq> None \<and> v \<noteq> Some 0"
  by (cases st) (auto simp: defaultRung_def falsy_def split: if_splits option.splits)

lemma correlation_then_default_falsy:
  "falsy (fst st) \<Longrightarrow>
     defaultRung f (correlationRung p f av st)
       = defaultRung f (correlationRung p f av (None, 0, None))"
  by (cases st)
     (auto simp: correlationRung_def defaultRung_def falsy_def Let_def
           split: option.splits prod.splits)

lemma yearRung_falsy:
  "falsy (fst st) \<Longrightarrow>
     yearRung p f s st = yearRung p f s (None, 0, None)
     \<or> (yearRung p f s st = st \<and> yearRung p f s (None, 0, None) = (None, 0, None))"
  by (cases st) (simp add: yearRung_def falsy_def split: option.splits)

lemma year_then_rest_falsy:
  assumes "falsy (fst st)"
  shows "defaultRung f (correlationRung p f av (yearRung p f s st))
       = defaultRung f (correlationRung p f av (yearRung p f s (None, 0, None)))"
  using yearRung_falsy[OF assms, of p f s] correlation_then_default_falsy[OF assms, of f p av]
  by auto

lemma artistRung_without_models [simp]:
  "artistRung (p\<lparr>fm_artists := None\<rparr>) f s st = st"
  "artistRung (p\<lparr>fm_artists := None, fm_years := y\<rparr>) f s st = st"
  by (simp_all add: artistRung_def)

lemma yearRung_without_models:
  "yearRung (p\<lparr>fm_artists := a, fm_years := None\<rparr>) f s st = st"
  by (simp add: yearRung_def split: option.splits)

lemma yearRung_frame [simp]:
  "yearRung (p\<lparr>fm_artists := a\<rparr>) f s st = yearRung p f s st"
  by (simp add: yearRung_def)

lemma correlationRung_frame [simp]:
  "correlationRung (p\<lparr>fm_artists := a\<rparr>) f av st = correlationRung p f av st"
  "correlationRung (p\<lparr>fm_artists := a, fm_years := y\<rparr>) f av st = correlationRung p f av st"
  by (simp_all add: correlationRung_def)

lemma falsy_Some_0: "fst st = Some 0 \<Longrightarrow> falsy (fst st)"
  by (simp add: falsy_def)

lemma ladder_artist_zero:
  assumes "fst (artistRung p f s (None, 0, None)) = Some 0"
  shows "predictionLadder p f av s = predictionLadder (p\<lparr>fm_artists := None\<rparr>) f av s"
  using year_then_rest_falsy[OF falsy_Some_0[OF assms]]
  by (simp add: predictionLadder_def)

lemma ladder_year_zero:
  assumes "fst (yearRung p f s (artistRung p f s (None, 0, None))) = Some 0"
  shows "predictionLadder p f av s
       = predictionLadder (p\<lparr>fm_artists := None, fm_years := None\<rparr>) f av s"
  using correlation_then_default_falsy[OF falsy_Some_0[OF assms]]
  by (simp add: predictionLadder_def yearRung_without_models)

lemma ladder_correlation_zero:
  assumes "fst (correlationRung p f av (yearRung p f s (artistRung p f s (None, 0, None)))) = Some 0"
  shows "predictionLadder p f av s = (Some (getDefaultFeatureValue f), 3/10, Some DefaultRung)"
  using falsy_Some_0[OF assms] by (simp add: predictionLadder_def defaultRung_def)

text \<open>
  C10. In \<open>predictFeature\<close> a rung whose value is exactly 0 counts as no prediction. A value
  the ladder returns from the artist, year or correlation rung is never 0 (nor null). When the
  artist rung computes 0 the ladder gives what it gives without artist models; when the value
  after the year rung is 0, what it gives without artist and year models; when the value after
  the correlation rung is 0, the default at confidence 0.3.
\<close>

theorem zero_prediction_falls_through:
  "(predictionLadder p f av s = (v, c, r) \<longrightarrow> r \<noteq> Some DefaultRung \<longrightarrow> v \<noteq> None \<and> v \<noteq> Some 0)
   \<and> (fst (artistRung p f s (None, 0, None)) = Some 0 \<longrightarrow>
        predictionLadder p f av s = predictionLadder (p\<lparr>fm_artists := None\<rparr>) f av s)
   \<and> (fst (yearRung p f s (artistRung p f s (None, 0, None))) = Some 0 \<longrightarrow>
        predictionLadder p f av s
          = predictionLadder (p\<lparr>fm_artists := None, fm_years := None\<rparr>) f av s)
   \<and> (fst (correlationRung p f av (yearRung p f s (artistRung p f s (None, 0, None)))) = Some 0 \<longrightarrow>
        predictionLadder p f av s = (Some (getDefaultFeatureValue f), 3/10, Some DefaultRung)
        \<and> predictFeature p f av s = adjustPredictionByConfidence (getDefaultFeatureValue f) (3/10) f)"
proof (intro conjI impI)
  assume "predictionLadder p f av s = (v, c, r)" "r \<noteq> Some DefaultRung"
  then show "v \<noteq> None" "v \<noteq> Some 0"
    unfolding predictionLadder_def by (auto dest: defaultRung_cases)
next
  assume "fst (artistRung p f s (None, 0, None)) = Some 0"
  then show "predictionLadder p f av s = predictionLadder (p\<lparr>fm_artists := None\<rparr>) f av s"
    by (rule ladder_artist_zero)
next
  assume "fst (yearRung p f s (artistRung p f s (None, 0, None))) = Some 0"
  then show "predictionLadder p f av s
      = predictionLadder (p\<lparr>fm_artists := None, fm_years := None\<rparr>) f av s"
    by (rule ladder_year_zero)
next
  assume a: "fst (correlationRung p f av (yearRung p f s (artistRung p f s (None, 0, None)))) = Some 0"
  then show l: "predictionLadder p f av s = (Some (getDefaultFeatureValue f), 3/10, Some DefaultRung)"
    by (rule ladder_correlation_zero)
  show "predictFeature p f av s = adjustPredictionByConfidence (getDefaultFeatureValue f) (3/10) f"
    by (simp add: predictFeature_def l nullAsZero_def)
qed

lemma zeroArtist_rungs:
  "fst (artistRung zeroArtistPredictor ''energy'' blankSong (None, 0, None)) = Some 0"
  "fst (yearRung zeroArtistPredictor ''energy'' blankSong
          (artistRung zeroArtistPredictor ''energy'' blankSong (None, 0, None))) = Some 0"
  "fst (correlationRung zeroArtistPredictor ''energy'' []
          (yearRung zeroArtistPredictor ''energy'' blankSong
             (artistRung zeroArtistPredictor ''energy'' blankSong (None, 0, None)))) = Some 0"
  "predictionLadder zeroArtistPredictor ''danceability'' [] blankSong
     = (Some (9/10), 8/10, Some ArtistRung)"
  by (simp_all add: artistRung_def yearRung_def correlationRung_def correlationSums_def
      predictionLadder_def defaultRung_def zeroArtistPredictor_def fallbackPredictor_def
      fallbackCorrelations_def feats_def blankSong_def falsy_def truthyYear_def truthyInt_def)

theorem zero_prediction_falls_through_witness:
  "predictionLadder zeroArtistPredictor ''danceability'' [] blankSong
     = (Some (9/10), 8/10, Some ArtistRung)
   \<and> fst (artistRung zeroArtistPredictor ''energy'' blankSong (None, 0, None)) = Some 0
   \<and> fst (yearRung zeroArtistPredictor ''energy'' blankSong
            (artistRung zeroArtistPredictor ''energy'' blankSong (None, 0, None))) = Some 0
   \<and> fst (correlationRung zeroArtistPredictor ''energy'' []
            (yearRung zeroArtistPredictor ''energy'' blankSong
               (artistRung zeroArtistPredictor ''energy'' blankSong (None, 0, None)))) = Some 0
   \<and> predictionLadder zeroArtistPredictor ''energy'' [] blankSong
       = predictionLadder (zeroArtistPredictor\<lparr>fm_artists := None\<rparr>) ''energy'' [] blankSong
   \<and> predictionLadder zeroArtistPredictor ''energy'' [] blankSong
       = (Some (getDefaultFeatureValue ''energy''), 3/10, Some DefaultRung)
   \<and> predictFeature zeroArtistPredictor ''energy'' [] blankSong = 1/2"
proof -
  have d: "adjustPredictionByConfidence (getDefaultFeatureValue ''energy'') (3/10) ''energy'' = 1/2"
    by (simp add: adjustPredictionByConfidence_def getDefaultFeatureValue_def defaults_def)
  note dance = zero_prediction_falls_through[of zeroArtistPredictor "''danceability''" "[]"
      blankSong "Some (9/10)" "8/10" "Some ArtistRung"]
  note en = zero_prediction_falls_through[of zeroArtistPredictor "''energy''" "[]" blankSong
      "Some (1/2)" "3/10" "Some DefaultRung"]
  have 1: "Some (9/10 :: real) \<noteq> Some 0"
    using dance zeroArtist_rungs(4) by blast
  have 2: "predictionLadder zeroArtistPredictor ''energy'' [] blankSong
       = predictionLadder (zeroArtistPredictor\<lparr>fm_artists := None\<rparr>) ''energy'' [] blankSong"
    using en zeroArtist_rungs(1) by blast
  have 3: "predictionLadder zeroArtistPredictor ''energy'' [] blankSong
       = (Some (getDefaultFeatureValue ''energy''), 3/10, Some DefaultRung)"
    and 4: "predictFeature zeroArtistPredictor ''energy'' [] blankSong
       = adjustPredictionByConfidence (getDefaultFeatureValue ''energy'') (3/10) ''energy''"
    using en zeroArtist_rungs(3) by blast+
  show ?thesis
    using zeroArtist_rungs 2 3 4[unfolded d] by (intro conjI)
qed

section \<open>Initialisation and the fallback tables\<close>

lemma initialize_initialized: "initialized p \<Longrightarrow> initialize d p = p"
  by (simp add: initialize_def)

lemma initialize_few:
  assumes "length (filter featureComplete (songs d)) < 5"
  shows "initialize d newPredictor =
     \<lparr>fm_correlations = Some fallbackCorrelations, fm_artists = None, fm_years = None,
      gm_averages = Some fallbackGenreAverages, mm_averages = Some fallbackMoodAverages,
      initialized = True,
      console = [Log_Initializing,
                 if reachable d then Warn_InsufficientTrainingData else Error_Initializing,
                 Log_InitializingFallback, Log_FallbackInitialized]\<rparr>"
  using assms
  by (simp add: initialize_def newPredictor_def findTrainingData_def initializeCatch_def
      initializeFallbackModels_def)

lemma initialize_emptyDb: "initialize emptyDb newPredictor = fallbackPredictor"
  by (simp add: initialize_few emptyDb_def fallbackPredictor_def)

lemma initialize_sparseDb: "initialize sparseDb newPredictor = fallbackPredictor"
proof -
  have "filter featureComplete (songs sparseDb) = []"
    by (simp add: sparseDb_def featureComplete_def positive_def uziSong_def tempoOnly_def
        blankSong_def)
  then show ?thesis
    by (simp add: initialize_few) (simp add: sparseDb_def fallbackPredictor_def)
qed

lemma predictGenres_initialized:
  assumes "initialized p" "gm_averages p = Some ga" "\<not> hasGenres s"
  shows "predictGenres d p s = (p, genreEnsemble ga (predictAudioFeaturesWith p s) s)"
  using assms
  by (simp add: predictGenres_def predictAudioFeatures_def initialize_initialized
      predictGenresFromFeatures_def)

section \<open>A song with a tempo and nothing else\<close>

lemma predictAudioFeaturesWith_tempoOnly:
  "predictAudioFeaturesWith fallbackPredictor tempoOnly =
     feats [(''energy'', 122/5), (''danceability'', 249/20), (''valence'', 249/20),
            (''tempo'', 120), (''acousticness'', 1/10), (''instrumentalness'', 1/10),
            (''liveness'', 1/10), (''speechiness'', 1/10), (''loudness'', -10), (''mode'', 1),
            (''key'', 0), (''timeSignature'', 4)]"
  by (simp add: predictAudioFeaturesWith_def audioColumns_def column_def tempoOnly_def
      blankSong_def missingValue_def predictFeature_def predictionLadder_def artistRung_def
      yearRung_def correlationRung_def defaultRung_def fallbackPredictor_def
      fallbackCorrelations_def feats_def falsy_def truthyYear_def truthyInt_def correlationSums_def
      nullAsZero_def adjustPredictionByConfidence_def getDefaultFeatureValue_def defaults_def)

text \<open>
  C2 at a concrete song. On a repository without feature-complete songs the predictor runs on
  its fallback tables. For a song whose only audio feature is a tempo of 120 BPM, the correlation rung predicts the
  energy as the weighted average of the correlated features present, the tempo alone: 120, at
  confidence 0.2, blended with the default 0.5 into 24.4. The documented range of energy is
  [0, 1].
\<close>

theorem energy_prediction_out_of_range:
  "getNum (snd (predictAudioFeatures sparseDb newPredictor tempoOnly)) ''energy'' = Some (122/5)
   \<and> map_of ranges ''energy'' = Some (0, 1)
   \<and> \<not> (122/5 \<le> (1::real))"
  by (simp add: predictAudioFeatures_def initialize_sparseDb predictAudioFeaturesWith_tempoOnly
      getNum_def feats_def ranges_def)

section \<open>Genre prediction for a Lil Uzi Vert song\<close>

lemma predictAudioFeaturesWith_uziSong:
  "predictAudioFeaturesWith fallbackPredictor uziSong = feats defaults"
  by (simp add: predictAudioFeaturesWith_def audioColumns_def column_def uziSong_def
      blankSong_def missingValue_def predictFeature_def predictionLadder_def artistRung_def
      yearRung_def correlationRung_def defaultRung_def fallbackPredictor_def
      fallbackCorrelations_def feats_def falsy_def truthyYear_def truthyInt_def correlationSums_def
      nullAsZero_def adjustPredictionByConfidence_def getDefaultFeatureValue_def defaults_def)

lemma cosine_lower_bound:
  fixes d n1 n2 y L :: real
  assumes "0 < n1" "0 < n2" "0 < y" "n1 * n2 \<le> y * y" "L * y \<le> d" "0 \<le> d"
  shows "L \<le> d / (sqrt n1 * sqrt n2)"
proof -
  have "sqrt n1 * sqrt n2 = sqrt (n1 * n2)"
    by (simp add: real_sqrt_mult)
  also have "\<dots> \<le> y"
    using assms(3,4) by (intro real_le_lsqrt) (simp_all add: power2_eq_square)
  finally have le: "sqrt n1 * sqrt n2 \<le> y" .
  have pos: "0 < sqrt n1 * sqrt n2"
    using assms(1,2) by simp
  have "L \<le> d / y"
    using assms(3,5) by (simp add: pos_le_divide_eq)
  also have "\<dots> \<le> d / (sqrt n1 * sqrt n2)"
    using le pos assms(6) by (simp add: frac_le)
  finally show ?thesis .
qed

lemma similarity_Trap:
  "1/4 \<le> calculateFeatureSimilarity (feats defaults)
     (feats [(''energy'', 8/10), (''danceability'', 7/10), (''valence'', 5/10),
            (''tempo'', 8/10), (''speechiness'', 6/10)])"
    (is "_ \<le> calculateFeatureSimilarity ?F ?G")
proof -
  let ?ks = "[''energy'', ''danceability'', ''valence'', ''tempo'', ''speechiness'']"
  have ks: "filter (\<lambda>key. isNumber ?F key \<and> isNumber ?G key) (keys ?F) = ?ks"
    by code_simp
  have d: "(\<Sum>key\<leftarrow>?ks. num ?F key * num ?G key) = 4853/50"
    by code_simp
  have n1: "(\<Sum>key\<leftarrow>?ks. num ?F key * num ?F key) = 360019/25"
    by code_simp
  have n2: "(\<Sum>key\<leftarrow>?ks. num ?G key * num ?G key) = 119/50"
    by code_simp
  have "calculateFeatureSimilarity ?F ?G = (4853/50) / (sqrt (360019/25) * sqrt (119/50))"
    unfolding calculateFeatureSimilarity_def Let_def ks d n1 n2 by simp
  moreover have "1/4 \<le> (4853/50) / (sqrt (360019/25) * sqrt (119/50))"
    by (rule cosine_lower_bound[where y=190]) simp_all
  ultimately show ?thesis by simp
qed

lemma similarity_HipHop:
  "1/4 \<le> calculateFeatureSimilarity (feats defaults)
     (feats [(''energy'', 6/10), (''danceability'', 6/10), (''valence'', 5/10),
            (''tempo'', 5/10), (''speechiness'', 8/10)])"
    (is "_ \<le> calculateFeatureSimilarity ?F ?G")
proof -
  let ?ks = "[''energy'', ''danceability'', ''valence'', ''tempo'', ''speechiness'']"
  have ks: "filter (\<lambda>key. isNumber ?F key \<and> isNumber ?G key) (keys ?F) = ?ks"
    by code_simp
  have d: "(\<Sum>key\<leftarrow>?ks. num ?F key * num ?G key) = 6093/100"
    by code_simp
  have n1: "(\<Sum>key\<leftarrow>?ks. num ?F key * num ?F key) = 360019/25"
    by code_simp
  have n2: "(\<Sum>key\<leftarrow>?ks. num ?G key * num ?G key) = 93/50"
    by code_simp
  have "calculateFeatureSimilarity ?F ?G = (6093/100) / (sqrt (360019/25) * sqrt (93/50))"
    unfolding calculateFeatureSimilarity_def Let_def ks d n1 n2 by simp
  moreover have "1/4 \<le> (6093/100) / (sqrt (360019/25) * sqrt (93/50))"
    by (rule cosine_lower_bound[where y=190]) simp_all
  ultimately show ?thesis by simp
qed

lemma similarity_RnB:
  "1/4 \<le> calculateFeatureSimilarity (feats defaults)
     (feats [(''energy'', 5/10), (''danceability'', 7/10), (''valence'', 6/10),
            (''tempo'', 4/10), (''speechiness'', 3/10)])"
    (is "_ \<le> calculateFeatureSimilarity ?F ?G")
proof -
  let ?ks = "[''energy'', ''danceability'', ''valence'', ''tempo'', ''speechiness'']"
  have ks: "filter (\<lambda>key. isNumber ?F key \<and> isNumber ?G key) (keys ?F) = ?ks"
    by code_simp
  have d: "(\<Sum>key\<leftarrow>?ks. num ?F key * num ?G key) = 4893/100"
    by code_simp
  have n1: "(\<Sum>key\<leftarrow>?ks. num ?F key * num ?F key) = 360019/25"
    by code_simp
  have n2: "(\<Sum>key\<leftarrow>?ks. num ?G key * num ?G key) = 27/20"
    by code_simp
  have "calculateFeatureSimilarity ?F ?G = (4893/100) / (sqrt (360019/25) * sqrt (27/20))"
    unfolding calculateFeatureSimilarity_def Let_def ks d n1 n2 by simp
  moreover have "1/4 \<le> (4893/100) / (sqrt (360019/25) * sqrt (27/20))"
    by (rule cosine_lower_bound[where y=190]) simp_all
  ultimately show ?thesis by simp
qed

lemma similarity_Pop:
  "1/4 \<le> calculateFeatureSimilarity (feats defaults)
     (feats [(''energy'', 7/10), (''danceability'', 8/10), (''valence'', 7/10),
            (''tempo'', 6/10), (''speechiness'', 2/10)])"
    (is "_ \<le> calculateFeatureSimilarity ?F ?G")
proof -
  let ?ks = "[''energy'', ''danceability'', ''valence'', ''tempo'', ''speechiness'']"
  have ks: "filter (\<lambda>key. isNumber ?F key \<and> isNumber ?G key) (keys ?F) = ?ks"
    by code_simp
  have d: "(\<Sum>key\<leftarrow>?ks. num ?F key * num ?G key) = 1828/25"
    by code_simp
  have n1: "(\<Sum>key\<leftarrow>?ks. num ?F key * num ?F key) = 360019/25"
    by code_simp
  have n2: "(\<Sum>key\<leftarrow>?ks. num ?G key * num ?G key) = 101/50"
    by code_simp
  have "calculateFeatureSimilarity ?F ?G = (1828/25) / (sqrt (360019/25) * sqrt (101/50))"
    unfolding calculateFeatureSimilarity_def Let_def ks d n1 n2 by simp
  moreover have "1/4 \<le> (1828/25) / (sqrt (360019/25) * sqrt (101/50))"
    by (rule cosine_lower_bound[where y=190]) simp_all
  ultimately show ?thesis by simp
qed

lemma length_three: "length ys = 3 \<Longrightarrow> \<exists>a b c. ys = [a, b, c]"
  by (auto simp: length_Suc_conv numeral_3_eq_3)

lemma top3_of_four:
  fixes xs :: "(string \<times> real) list"
  assumes "length xs = 4" "\<forall>x\<in>set xs. L \<le> snd x"
  shows "\<exists>a b c. take 3 (sortDesc snd xs) = [a, b, c] \<and> L \<le> snd a \<and> L \<le> snd b \<and> L \<le> snd c"
proof -
  have "length (take 3 (sortDesc snd xs)) = 3"
    using assms(1) by (simp add: sortDesc_def)
  then obtain a b c where abc: "take 3 (sortDesc snd xs) = [a, b, c]"
    using length_three by blast
  have "set (take 3 (sortDesc snd xs)) \<subseteq> set xs"
    using set_take_subset[of 3 "sortDesc snd xs"] by (simp add: sortDesc_def)
  with abc assms(2) show ?thesis by auto
qed

lemma audio_votes_uzi:
  "\<exists>a b c. predictGenresFromAudioFeatures (feats defaults) fallbackGenreAverages = [a, b, c]
     \<and> 1/4 \<le> snd a \<and> 1/4 \<le> snd b \<and> 1/4 \<le> snd c"
  unfolding predictGenresFromAudioFeatures_def
proof (rule top3_of_four)
  show "length (map (\<lambda>(genre, avgFeatures).
                       (genre, calculateFeatureSimilarity (feats defaults) avgFeatures))
          fallbackGenreAverages) = 4"
    by (simp add: fallbackGenreAverages_def)
  show "\<forall>x\<in>set (map (\<lambda>(genre, avgFeatures).
                        (genre, calculateFeatureSimilarity (feats defaults) avgFeatures))
          fallbackGenreAverages). 1/4 \<le> snd x"
    using similarity_Trap similarity_HipHop similarity_RnB similarity_Pop
    by (simp add: fallbackGenreAverages_def)
qed

lemma metadata_votes_uzi: "aip_predictGenresFromMetadata uziSong = [''Trap'', ''Hip-Hop'']"
  by code_simp

lemma artist_votes_uzi: "predictGenresFromArtist (artist uziSong) = [''trap'']"
  by code_simp

lemma year_votes_uzi: "predictGenresFromYear (year uziSong) = []"
  by code_simp

lemma ensemble_uzi:
  "genreEnsemble fallbackGenreAverages (feats defaults) uziSong = [''[object Object]'', ''trap'']"
proof -
  obtain a b c
    where abc: "predictGenresFromAudioFeatures (feats defaults) fallbackGenreAverages = [a, b, c]"
      and ge: "1/4 \<le> snd a" "1/4 \<le> snd b" "1/4 \<le> snd c"
    using audio_votes_uzi by blast
  show ?thesis
    unfolding genreEnsemble_def Let_def abc metadata_votes_uzi artist_votes_uzi year_votes_uzi
    using ge by (simp add: sortDesc_def split_def)
qed

text \<open>
  C9 at a concrete song. On a repository without feature-complete songs the predictor runs on
  its fallback tables. For
  a song by Lil Uzi Vert with no year, no audio features and no genre tags, the three audio
  votes are tallied under the one key \<open>[object Object]\<close> with a sum of at least 0.75, the
  artist voter adds lower-case \<open>trap\<close> at 0.7, and the metadata voter's \<open>Trap\<close> and \<open>Hip-Hop\<close>
  at 0.6 each miss the top two.
\<close>

theorem uzi_genre_prediction:
  "snd (predictGenres sparseDb newPredictor uziSong) = [''[object Object]'', ''trap'']
   \<and> str_includes (toLowerCase (artist uziSong)) ''uzi''
   \<and> genres uziSong = Some []
   \<and> ''Trap'' \<notin> set (snd (predictGenres sparseDb newPredictor uziSong))
   \<and> ''Hip-Hop'' \<notin> set (snd (predictGenres sparseDb newPredictor uziSong))"
proof -
  have i: "initialized fallbackPredictor"
    and g: "gm_averages fallbackPredictor = Some fallbackGenreAverages"
    by (simp_all add: fallbackPredictor_def)
  have h: "\<not> hasGenres uziSong"
    by (simp add: hasGenres_def uziSong_def)
  have r: "snd (predictGenres sparseDb newPredictor uziSong) = [''[object Object]'', ''trap'']"
    by (simp add: predictGenres_def predictAudioFeatures_def initialize_sparseDb h
        initialize_initialized[OF i] predictAudioFeaturesWith_uziSong
        predictGenresFromFeatures_def g ensemble_uzi)
  have a: "str_includes (toLowerCase (artist uziSong)) ''uzi''"
    by code_simp
  show ?thesis
    unfolding r using a by (simp add: uziSong_def)
qed


section \<open>Genre prediction in fallback mode\<close>

lemma genreEnsemble_votes:
  "genreEnsemble ga f s =
     map fst (take 2 (sortDesc snd (foldl addScore []
       (map (\<lambda>(g, c). (''[object Object]'', c))
          (take 3 (sortDesc snd
             (map (\<lambda>(genre, avgFeatures). (genre, calculateFeatureSimilarity f avgFeatures)) ga)))
        @ map (\<lambda>g. (g, 6/10)) (aip_predictGenresFromMetadata s)
        @ map (\<lambda>g. (g, 7/10)) (predictGenresFromArtist (artist s))
        @ map (\<lambda>g. (g, 5/10)) (predictGenresFromYear (year s))))))"
  by (simp add: genreEnsemble_def predictGenresFromAudioFeatures_def Let_def comp_def split_def)

lemma predictGenres_tagged:
  assumes "initialized p" "genres s = Some gs" "gs \<noteq> []"
  shows "predictGenres d p s = (p, gs)"
  using assms by (simp add: predictGenres_def initialize_initialized hasGenres_def)

text \<open>
  C7. When fewer than 5 feature-complete songs exist as a fresh predictor initialises, no
  statistical model is trained (no artist and no year models exist afterwards): the genre and
  mood averages and the correlations are the fixed tables, the console shows the fallback
  (after the insufficient-data warning when the repository answered), and the predictor is
  initialised. From then on \<open>initialize\<close> changes nothing, whatever the repository holds. A song
  that has genre tags is answered with its tags. For every other song the candidates of the
  audio voter are the four genres of the fixed table, Trap, Hip-Hop, R&B and Pop, each scored by
  the similarity of the song's predicted features to that genre's fixed vector; the best three
  are tallied (under the one key \<open>[object Object]\<close>) with the votes of the metadata, artist and
  year voters, and the two highest tallies are the prediction, the same whatever the repository
  holds at the time of the call.
\<close>

theorem fallback_below_five_training_songs:
  assumes "length (filter featureComplete (songs d)) < 5"
  shows "(let p = initialize d newPredictor;
              scored = (\<lambda>s. map (\<lambda>(genre, avgFeatures).
                                    (genre, calculateFeatureSimilarity
                                              (predictAudioFeaturesWith p s) avgFeatures))
                               fallbackGenreAverages)
          in gm_averages p = Some fallbackGenreAverages
          \<and> mm_averages p = Some fallbackMoodAverages
          \<and> fm_correlations p = Some fallbackCorrelations
          \<and> fm_artists p = None \<and> fm_years p = None
          \<and> initialized p
          \<and> Log_InitializingFallback \<in> set (console p)
          \<and> (reachable d \<longrightarrow> Warn_InsufficientTrainingData \<in> set (console p))
          \<and> (\<forall>n. Log_Initialized n \<notin> set (console p))
          \<and> (\<forall>d'. initialize d' p = p)
          \<and> (\<forall>d' s gs. genres s = Some gs \<and> gs \<noteq> [] \<longrightarrow> predictGenres d' p s = (p, gs))
          \<and> (\<forall>s. map fst (scored s) = [''Trap'', ''Hip-Hop'', ''R&B'', ''Pop''])
          \<and> (\<forall>d' s. \<not> hasGenres s \<longrightarrow>
                fst (predictGenres d' p s) = p
                \<and> snd (predictGenres d' p s)
                    = map fst (take 2 (sortDesc snd (foldl addScore []
                        (map (\<lambda>(g, c). (''[object Object]'', c)) (take 3 (sortDesc snd (scored s)))
                         @ map (\<lambda>g. (g, 6/10)) (aip_predictGenresFromMetadata s)
                         @ map (\<lambda>g. (g, 7/10)) (predictGenresFromArtist (artist s))
                         @ map (\<lambda>g. (g, 5/10)) (predictGenresFromYear (year s))))))))"
proof -
  define p where "p = initialize d newPredictor"
  have p: "p = \<lparr>fm_correlations = Some fallbackCorrelations, fm_artists = None, fm_years = None,
      gm_averages = Some fallbackGenreAverages, mm_averages = Some fallbackMoodAverages,
      initialized = True,
      console = [Log_Initializing,
                 if reachable d then Warn_InsufficientTrainingData else Error_Initializing,
                 Log_InitializingFallback, Log_FallbackInitialized]\<rparr>"
    unfolding p_def by (rule initialize_few[OF assms])
  have i: "initialized p" and g: "gm_averages p = Some fallbackGenreAverages"
    by (simp_all add: p)
  have "\<forall>d'. initialize d' p = p"
    using i by (simp add: initialize_initialized)
  moreover have "\<forall>d' s gs. genres s = Some gs \<and> gs \<noteq> [] \<longrightarrow> predictGenres d' p s = (p, gs)"
    using predictGenres_tagged[OF i] by blast
  moreover have "\<forall>s. map fst (map (\<lambda>(genre, avgFeatures).
                      (genre, calculateFeatureSimilarity (predictAudioFeaturesWith p s) avgFeatures))
                    fallbackGenreAverages) = [''Trap'', ''Hip-Hop'', ''R&B'', ''Pop'']"
    by (simp add: fallbackGenreAverages_def)
  moreover have "\<forall>d' s. \<not> hasGenres s \<longrightarrow>
      fst (predictGenres d' p s) = p
      \<and> snd (predictGenres d' p s)
          = map fst (take 2 (sortDesc snd (foldl addScore []
              (map (\<lambda>(g, c). (''[object Object]'', c))
                 (take 3 (sortDesc snd
                    (map (\<lambda>(genre, avgFeatures).
                            (genre, calculateFeatureSimilarity
                                      (predictAudioFeaturesWith p s) avgFeatures))
                       fallbackGenreAverages)))
               @ map (\<lambda>g. (g, 6/10)) (aip_predictGenresFromMetadata s)
               @ map (\<lambda>g. (g, 7/10)) (predictGenresFromArtist (artist s))
               @ map (\<lambda>g. (g, 5/10)) (predictGenresFromYear (year s))))))"
    using predictGenres_initialized[OF i g] genreEnsemble_votes by simp
  moreover have "mm_averages p = Some fallbackMoodAverages"
    "fm_correlations p = Some fallbackCorrelations" "fm_artists p = None" "fm_years p = None"
    "Log_InitializingFallback \<in> set (console p)"
    "reachable d \<longrightarrow> Warn_InsufficientTrainingData \<in> set (console p)"
    "\<forall>n. Log_Initialized n \<notin> set (console p)"
    by (simp_all add: p)
  ultimately show ?thesis
    using i g unfolding p_def[symmetric] Let_def by blast
qed

theorem fallback_below_five_training_songs_witness:
  "length (filter featureComplete (songs emptyDb)) < 5
   \<and> initialize emptyDb newPredictor = fallbackPredictor
   \<and> gm_averages fallbackPredictor = Some fallbackGenreAverages
   \<and> fm_artists fallbackPredictor = None
   \<and> Warn_InsufficientTrainingData \<in> set (console fallbackPredictor)
   \<and> initialize emptyDb fallbackPredictor = fallbackPredictor
   \<and> \<not> hasGenres uziSong
   \<and> fst (predictGenres emptyDb fallbackPredictor uziSong) = fallbackPredictor
   \<and> snd (predictGenres emptyDb fallbackPredictor uziSong)
       = map fst (take 2 (sortDesc snd (foldl addScore []
           (map (\<lambda>(g, c). (''[object Object]'', c))
              (take 3 (sortDesc snd
                 (map (\<lambda>(genre, avgFeatures).
                         (genre, calculateFeatureSimilarity
                                   (predictAudioFeaturesWith fallbackPredictor uziSong) avgFeatures))
                    fallbackGenreAverages)))
            @ map (\<lambda>g. (g, 6/10)) (aip_predictGenresFromMetadata uziSong)
            @ map (\<lambda>g. (g, 7/10)) (predictGenresFromArtist (artist uziSong))
            @ map (\<lambda>g. (g, 5/10)) (predictGenresFromYear (year uziSong))))))
   \<and> snd (predictGenres emptyDb fallbackPredictor uziSong) = [''[object Object]'', ''trap'']
   \<and> predictGenres emptyDb fallbackPredictor songA = (fallbackPredictor, [''Trap'', ''Hip-Hop''])"
proof -
  have h: "length (filter featureComplete (songs emptyDb)) < 5"
    by (simp add: emptyDb_def)
  have u: "\<not> hasGenres uziSong"
    by (simp add: hasGenres_def uziSong_def)
  have r: "reachable emptyDb"
    by (simp add: emptyDb_def)
  have t: "genres songA = Some [''Trap'', ''Hip-Hop'']"
    by (simp add: songA_def)
  have i: "initialized fallbackPredictor"
    and g: "gm_averages fallbackPredictor = Some fallbackGenreAverages"
    by (simp_all add: fallbackPredictor_def)
  have e: "snd (predictGenres emptyDb fallbackPredictor uziSong) = [''[object Object]'', ''trap'']"
    by (simp add: predictGenres_initialized[OF i g u] predictAudioFeaturesWith_uziSong
        ensemble_uzi)
  note f = fallback_below_five_training_songs[OF h, unfolded Let_def initialize_emptyDb]
  have 1: "gm_averages fallbackPredictor = Some fallbackGenreAverages"
    "fm_artists fallbackPredictor = None"
    "Warn_InsufficientTrainingData \<in> set (console fallbackPredictor)"
    "initialize emptyDb fallbackPredictor = fallbackPredictor"
    using f r by blast+
  have 2: "predictGenres emptyDb fallbackPredictor songA = (fallbackPredictor, [''Trap'', ''Hip-Hop''])"
    using f t by blast
  have 3: "fst (predictGenres emptyDb fallbackPredictor uziSong) = fallbackPredictor
     \<and> snd (predictGenres emptyDb fallbackPredictor uziSong)
       = map fst (take 2 (sortDesc snd (foldl addScore []
           (map (\<lambda>(g, c). (''[object Object]'', c))
              (take 3 (sortDesc snd
                 (map (\<lambda>(genre, avgFeatures).
                         (genre, calculateFeatureSimilarity
                                   (predictAudioFeaturesWith fallbackPredictor uziSong) avgFeatures))
                    fallbackGenreAverages)))
            @ map (\<lambda>g. (g, 6/10)) (aip_predictGenresFromMetadata uziSong)
            @ map (\<lambda>g. (g, 7/10)) (predictGenresFromArtist (artist uziSong))
            @ map (\<lambda>g. (g, 5/10)) (predictGenresFromYear (year uziSong))))))"
    using f u by blast
  show ?thesis
    using h initialize_emptyDb 1 2 3 u e by blast
qed

section \<open>The hybrid merge\<close>

lemma map_of_mapSet: "map_of (mapSet k v m) = (map_of m)(k \<mapsto> v)"
  by (induction m) (auto simp: fun_eq_iff)

lemma keys_mapSet: "fst ` set (mapSet k v m) = insert k (fst ` set m)"
  by (simp add: dom_map_of_conv_image_fst[symmetric] map_of_mapSet)

lemma distinct_mapSet: "distinct (map fst m) \<Longrightarrow> distinct (map fst (mapSet k v m))"
  by (induction m) (auto simp: keys_mapSet)

lemma set_mapSet_subset: "set (mapSet k v m) \<subseteq> insert (k, v) (set m)"
  by (induction m) (auto split: if_splits)

lemma keyed_mapSet: "keyed m \<Longrightarrow> k = song_id (c_song v) \<Longrightarrow> keyed (mapSet k v m)"
  using set_mapSet_subset[of k v m] by (auto simp: keyed_def)

lemma keyed_lookup:
  "keyed m \<Longrightarrow> map_of m k = Some c \<Longrightarrow> song_id (c_song c) = k"
  by (auto simp: keyed_def dest: map_of_SomeD)

lemma find_absent:
  "i \<notin> set (songIds songOf rs) \<Longrightarrow> find (\<lambda>r. song_id (songOf r) = i) rs = None"
  by (induction rs) (auto simp: songIds_def)

lemma contribution_absent:
  "i \<notin> set (songIds songOf rs) \<Longrightarrow> contribution songOf scoreOf w rs i = 0"
  by (simp add: contribution_def find_absent)

subsection \<open>The collaborative loop\<close>

lemma addCollaborative_inv:
  "keyed m \<Longrightarrow> distinct (map fst m) \<Longrightarrow>
     keyed (addCollaborative w m r) \<and> distinct (map fst (addCollaborative w m r))"
  by (simp add: addCollaborative_def keyed_mapSet distinct_mapSet)

lemma foldl_addCollaborative_inv:
  "keyed m \<Longrightarrow> distinct (map fst m) \<Longrightarrow>
     keyed (foldl (addCollaborative w) m rs) \<and> distinct (map fst (foldl (addCollaborative w) m rs))"
  by (induction rs arbitrary: m) (simp_all add: addCollaborative_inv)

lemma scoreAt_addCollaborative:
  "scoreAt (addCollaborative w m r) i
     = (if song_id (cf_song r) = i then cf_score r * w else scoreAt m i)"
  by (simp add: scoreAt_def addCollaborative_def map_of_mapSet)

lemma scoreAt_foldl_addCollaborative:
  "distinct (songIds cf_song rs) \<Longrightarrow>
     scoreAt (foldl (addCollaborative w) m rs) i
       = (if i \<in> set (songIds cf_song rs) then contribution cf_song cf_score w rs i
          else scoreAt m i)"
proof (induction rs arbitrary: m)
  case Nil
  then show ?case by (simp add: songIds_def)
next
  case (Cons r rs)
  then show ?case
    by (auto simp: songIds_def contribution_def scoreAt_addCollaborative)
qed

subsection \<open>The three accumulating loops\<close>

lemma addScored_inv:
  "keyed m \<Longrightarrow> distinct (map fst m) \<Longrightarrow>
     keyed (addScored tag m x) \<and> distinct (map fst (addScored tag m x))"
  by (cases x)
     (auto simp: addScored_def keyed_mapSet distinct_mapSet keyed_lookup split: option.splits)

lemma foldl_addScored_inv:
  "keyed m \<Longrightarrow> distinct (map fst m) \<Longrightarrow>
     keyed (foldl (addScored tag) m xs) \<and> distinct (map fst (foldl (addScored tag) m xs))"
  by (induction xs arbitrary: m) (simp_all add: addScored_inv)

lemma scoreAt_addScored:
  "scoreAt (addScored tag m (s, score, d)) i
     = (if song_id s = i then scoreAt m i + score else scoreAt m i)"
  by (auto simp: scoreAt_def addScored_def map_of_mapSet split: option.splits)

lemma scoreAt_foldl_addScored:
  "distinct (songIds songOf rs) \<Longrightarrow>
     scoreAt (foldl (addScored tag) m (map (\<lambda>r. (songOf r, scoreOf r * w, det r)) rs)) i
       = scoreAt m i + contribution songOf scoreOf w rs i"
proof (induction rs arbitrary: m)
  case Nil
  then show ?case by (simp add: contribution_def)
next
  case (Cons r rs)
  have d: "distinct (songIds songOf rs)" and n: "song_id (songOf r) \<notin> set (songIds songOf rs)"
    using Cons.prems by (simp_all add: songIds_def)
  have "song_id (songOf r) = i \<Longrightarrow> contribution songOf scoreOf w rs i = 0"
    using n by (auto intro: contribution_absent)
  then show ?case
    using Cons.IH[OF d] by (auto simp: contribution_def scoreAt_addScored)
qed

subsection \<open>The combined score\<close>

lemma combineRecs_inv:
  "keyed (combineRecs cw cbw aiw pw C B A P) \<and>
   distinct (map fst (combineRecs cw cbw aiw pw C B A P))"
proof -
  have 0: "keyed ([] :: combinedMap) \<and> distinct (map fst ([] :: combinedMap))"
    by (simp add: keyed_def)
  show ?thesis
    unfolding combineRecs_def Let_def
    by (intro foldl_addScored_inv[THEN conjunct1] foldl_addScored_inv[THEN conjunct2]
          foldl_addCollaborative_inv[THEN conjunct1] foldl_addCollaborative_inv[THEN conjunct2]
          conjI 0[THEN conjunct1] 0[THEN conjunct2])
qed

lemma scoreAt_combineRecs:
  assumes "distinct (songIds cf_song C)" "distinct (songIds cb_song B)"
    "distinct (songIds ai_song A)" "distinct (songIds cb_song P)"
  shows "scoreAt (combineRecs cw cbw aiw pw C B A P) i
       = contribution cf_song cf_score cw C i + contribution cb_song cb_similarity cbw B i
         + contribution ai_song ai_similarity aiw A i + contribution cb_song cb_similarity pw P i"
proof -
  have "scoreAt (foldl (addCollaborative cw) [] C) i = contribution cf_song cf_score cw C i"
    using scoreAt_foldl_addCollaborative[OF assms(1), of cw "[]" i]
    by (simp add: contribution_absent) (simp add: scoreAt_def)
  then show ?thesis
    unfolding combineRecs_def Let_def
    by (simp add: scoreAt_foldl_addScored[OF assms(2)] scoreAt_foldl_addScored[OF assms(3)]
        scoreAt_foldl_addScored[OF assms(4)])
qed

lemma finalRecommendations_entry:
  assumes "r \<in> set (finalRecommendations n m)"
  shows "\<exists>k c. (k, c) \<in> set m \<and> rec_song r = c_song c \<and> recommendationScore r = c_score c
               \<and> sources r = c_sources c"
proof -
  from assms obtain ic where ic: "ic \<in> set (enumerate 0 (take n (sortDesc c_score (map snd m))))"
    and r: "r = \<lparr>rec_song = c_song (snd ic), recommendationScore = c_score (snd ic),
                  rank = Some (fst ic + 1), sources = c_sources (snd ic),
                  details = c_details (snd ic)\<rparr>"
    by (auto simp: finalRecommendations_def)
  have "snd ic \<in> set (map snd (enumerate 0 (take n (sortDesc c_score (map snd m)))))"
    using ic by (simp del: map_snd_enumerate)
  then have "snd ic \<in> set (take n (sortDesc c_score (map snd m)))"
    by simp
  then have "snd ic \<in> set (map snd m)"
    using set_take_subset[of n "sortDesc c_score (map snd m)"] by (auto simp: sortDesc_def)
  then obtain k where "(k, snd ic) \<in> set m"
    by auto
  with r show ?thesis by auto
qed

lemma finalRecommendations_score:
  assumes "keyed m" "distinct (map fst m)" "r \<in> set (finalRecommendations n m)"
  shows "recommendationScore r = scoreAt m (song_id (rec_song r))"
proof -
  obtain k c where kc: "(k, c) \<in> set m" "rec_song r = c_song c" "recommendationScore r = c_score c"
    using finalRecommendations_entry[OF assms(3)] by blast
  have "map_of m k = Some c"
    using assms(2) kc(1) by simp
  moreover have "k = song_id (c_song c)"
    using assms(1) kc(1) by (auto simp: keyed_def)
  ultimately show ?thesis
    using kc by (simp add: scoreAt_def)
qed

lemma distinct_popular_ids:
  assumes "distinct (map song_id (songs d))"
  shows "distinct (songIds cb_song (getPopularSongs d k))"
proof -
  have "distinct (map song_id (sort_key popularKey (songs d)))"
    using assms by (simp add: distinct_map)
  then have "distinct (take k (map song_id (sort_key popularKey (songs d))))"
    by (rule distinct_take)
  then show ?thesis
    by (simp add: songIds_def getPopularSongs_def findPopular_def comp_def take_map)
qed

text \<open>
  C4. In the hybrid merge every returned entry's score is the sum, over the four sources, of
  the score the source gave the song times the source's weight (a source that did not return
  the song adds nothing): scores add up, they are not maximised. Each source returns a song
  at most once, and song ids are unique in the repository.
\<close>

theorem hybrid_score_is_weighted_sum:
  assumes "distinct (songIds cf_song (findSimilarItems e d u (limitOf opts)))"
    and "distinct (songIds cb_song (getContentRecommendations e d u (limitOf opts)))"
    and "distinct (songIds ai_song (getEnhancedRecommendations e d u (limitOf opts)))"
    and "distinct (map song_id (songs d))"
  shows "\<forall>r \<in> set (snd (getRecommendations e d u opts)).
           recommendationScore r =
             contribution cf_song cf_score (weightOf (3/10) (collaborativeWeight opts))
               (findSimilarItems e d u (limitOf opts)) (song_id (rec_song r))
             + contribution cb_song cb_similarity (weightOf (3/10) (contentBasedWeight opts))
                 (getContentRecommendations e d u (limitOf opts)) (song_id (rec_song r))
             + contribution ai_song ai_similarity (weightOf (3/10) (aiEnhancedWeight opts))
                 (getEnhancedRecommendations e d u (limitOf opts)) (song_id (rec_song r))
             + contribution cb_song cb_similarity (weightOf (1/10) (popularityWeight opts))
                 (getPopularSongs d (popularSlice (limitOf opts))) (song_id (rec_song r))"
proof
  fix r
  assume "r \<in> set (snd (getRecommendations e d u opts))"
  then have r: "r \<in> set (finalRecommendations (limitOf opts)
      (combineRecs (weightOf (3/10) (collaborativeWeight opts))
         (weightOf (3/10) (contentBasedWeight opts)) (weightOf (3/10) (aiEnhancedWeight opts))
         (weightOf (1/10) (popularityWeight opts))
         (findSimilarItems e d u (limitOf opts)) (getContentRecommendations e d u (limitOf opts))
         (getEnhancedRecommendations e d u (limitOf opts))
         (getPopularSongs d (popularSlice (limitOf opts)))))"
    by (simp add: getRecommendations_def Let_def)
  show "recommendationScore r =
      contribution cf_song cf_score (weightOf (3/10) (collaborativeWeight opts))
        (findSimilarItems e d u (limitOf opts)) (song_id (rec_song r))
      + contribution cb_song cb_similarity (weightOf (3/10) (contentBasedWeight opts))
          (getContentRecommendations e d u (limitOf opts)) (song_id (rec_song r))
      + contribution ai_song ai_similarity (weightOf (3/10) (aiEnhancedWeight opts))
          (getEnhancedRecommendations e d u (limitOf opts)) (song_id (rec_song r))
      + contribution cb_song cb_similarity (weightOf (1/10) (popularityWeight opts))
          (getPopularSongs d (popularSlice (limitOf opts))) (song_id (rec_song r))"
    using finalRecommendations_score[OF combineRecs_inv[THEN conjunct1]
        combineRecs_inv[THEN conjunct2] r]
      scoreAt_combineRecs[OF assms(1-3) distinct_popular_ids[OF assms(4)]]
    by simp
qed

lemma merge_scenario:
  "map (\<lambda>r. (song_id (rec_song r), recommendationScore r, sources r))
     (snd (getRecommendations mergeEngines emptyDb ''u'' (limitOnly 20)))
   = [(''a'', 3/10, [''collaborative'', ''content-based'']), (''b'', 3/20, [''content-based''])]"
  by (simp add: getRecommendations_def Let_def mergeEngines_def limitOnly_def limitOf_def weightOf_def
      combineRecs_def addCollaborative_def addScored_def getPopularSongs_def findPopular_def
      emptyDb_def finalRecommendations_def sortDesc_def songA_def songB_def blankSong_def)

theorem hybrid_score_is_weighted_sum_witness:
  "distinct (songIds cf_song (findSimilarItems mergeEngines emptyDb ''u'' (limitOf (limitOnly 20))))
   \<and> distinct (songIds cb_song
        (getContentRecommendations mergeEngines emptyDb ''u'' (limitOf (limitOnly 20))))
   \<and> distinct (songIds ai_song
        (getEnhancedRecommendations mergeEngines emptyDb ''u'' (limitOf (limitOnly 20))))
   \<and> distinct (map song_id (songs emptyDb))
   \<and> list_all (\<lambda>r. song_id (rec_song r) = ''a'' \<longrightarrow>
                     recommendationScore r = 6/10 * (3/10) + 4/10 * (3/10))
         (snd (getRecommendations mergeEngines emptyDb ''u'' (limitOnly 20)))
   \<and> map (\<lambda>r. (song_id (rec_song r), recommendationScore r, sources r))
        (snd (getRecommendations mergeEngines emptyDb ''u'' (limitOnly 20)))
      = [(''a'', 3/10, [''collaborative'', ''content-based'']), (''b'', 3/20, [''content-based''])]
   \<and> (4/10 * (3/10) :: real) < 3/10 \<and> (6/10 * (3/10) :: real) < 3/10"
proof -
  have h: "distinct (songIds cf_song (findSimilarItems mergeEngines emptyDb ''u'' (limitOf (limitOnly 20))))"
    "distinct (songIds cb_song
        (getContentRecommendations mergeEngines emptyDb ''u'' (limitOf (limitOnly 20))))"
    "distinct (songIds ai_song
        (getEnhancedRecommendations mergeEngines emptyDb ''u'' (limitOf (limitOnly 20))))"
    "distinct (map song_id (songs emptyDb))"
    by (simp_all add: songIds_def mergeEngines_def emptyDb_def songA_def songB_def blankSong_def)
  have c: "contribution cf_song cf_score (weightOf (3/10) (collaborativeWeight (limitOnly 20)))
             (findSimilarItems mergeEngines emptyDb ''u'' (limitOf (limitOnly 20))) ''a''
           + contribution cb_song cb_similarity (weightOf (3/10) (contentBasedWeight (limitOnly 20)))
               (getContentRecommendations mergeEngines emptyDb ''u'' (limitOf (limitOnly 20))) ''a''
           + contribution ai_song ai_similarity (weightOf (3/10) (aiEnhancedWeight (limitOnly 20)))
               (getEnhancedRecommendations mergeEngines emptyDb ''u'' (limitOf (limitOnly 20))) ''a''
           + contribution cb_song cb_similarity (weightOf (1/10) (popularityWeight (limitOnly 20)))
               (getPopularSongs emptyDb (popularSlice (limitOf (limitOnly 20)))) ''a''
           = 6/10 * (3/10) + 4/10 * (3/10)"
    by (simp add: contribution_def mergeEngines_def limitOnly_def limitOf_def weightOf_def
        getPopularSongs_def findPopular_def emptyDb_def songA_def songB_def blankSong_def)
  have "list_all (\<lambda>r. song_id (rec_song r) = ''a'' \<longrightarrow>
                     recommendationScore r = 6/10 * (3/10) + 4/10 * (3/10))
         (snd (getRecommendations mergeEngines emptyDb ''u'' (limitOnly 20)))"
    unfolding list_all_iff using hybrid_score_is_weighted_sum[OF h] c by auto
  then show ?thesis
    using h merge_scenario by simp
qed

section \<open>The entry points\<close>

lemma mapSet_not_Nil: "mapSet k v m \<noteq> []"
  by (cases m) (auto split: if_splits)

lemma addScored_not_Nil: "addScored tag m x \<noteq> []"
  by (cases x) (simp add: addScored_def mapSet_not_Nil split: option.splits)

lemma foldl_addScored_not_Nil: "m \<noteq> [] \<or> xs \<noteq> [] \<Longrightarrow> foldl (addScored tag) m xs \<noteq> []"
  by (induction xs arbitrary: m) (auto simp: addScored_not_Nil)

lemma foldl_addCollaborative_not_Nil:
  "m \<noteq> [] \<or> rs \<noteq> [] \<Longrightarrow> foldl (addCollaborative w) m rs \<noteq> []"
  by (induction rs arbitrary: m) (auto simp: addCollaborative_def mapSet_not_Nil)

lemma combineRecs_not_Nil:
  assumes "C \<noteq> [] \<or> B \<noteq> [] \<or> A \<noteq> [] \<or> P \<noteq> []"
  shows "combineRecs cw cbw aiw pw C B A P \<noteq> []"
proof -
  let ?m1 = "foldl (addCollaborative cw) [] C"
  let ?m2 = "foldl (addScored ''content-based'') ?m1
      (map (\<lambda>r. (cb_song r, cb_similarity r * cbw, Reason (cb_reason r))) B)"
  let ?m3 = "foldl (addScored ''ai-enhanced'') ?m2
      (map (\<lambda>r. (ai_song r, ai_similarity r * aiw, BasedOn (ai_basedOn r))) A)"
  let ?m4 = "foldl (addScored ''popularity'') ?m3
      (map (\<lambda>r. (cb_song r, cb_similarity r * pw, Reason (cb_reason r))) P)"
  have 1: "C \<noteq> [] \<Longrightarrow> ?m1 \<noteq> []"
    by (rule foldl_addCollaborative_not_Nil) simp
  have 2: "?m1 \<noteq> [] \<or> B \<noteq> [] \<Longrightarrow> ?m2 \<noteq> []"
    by (rule foldl_addScored_not_Nil) simp
  have 3: "?m2 \<noteq> [] \<or> A \<noteq> [] \<Longrightarrow> ?m3 \<noteq> []"
    by (rule foldl_addScored_not_Nil) simp
  have 4: "?m3 \<noteq> [] \<or> P \<noteq> [] \<Longrightarrow> ?m4 \<noteq> []"
    by (rule foldl_addScored_not_Nil) simp
  have "?m4 \<noteq> []"
    using assms 1 2 3 4 by blast
  then show ?thesis
    unfolding combineRecs_def Let_def .
qed

lemma length_finalRecommendations:
  "length (finalRecommendations n m) = min n (length m)"
  by (simp add: finalRecommendations_def sortDesc_def min.commute)

lemma finalRecommendations_not_Nil:
  assumes "0 < n" "m \<noteq> []"
  shows "finalRecommendations n m \<noteq> []"
proof -
  have "0 < length (finalRecommendations n m)"
    using assms by (simp add: length_finalRecommendations)
  then show ?thesis by auto
qed

text \<open>
  C5 as stated, at the weights the repository's own route passes for the hybrid algorithm:
  0.4 + 0.4 + 0.3 + 0.2 = 1.3. The call consults all four sources and returns the merged
  ranking under these weights.
\<close>

theorem weights_over_one_counterexample:
  "weightOf (3/10) (collaborativeWeight routeOptions)
     + weightOf (3/10) (contentBasedWeight routeOptions)
     + weightOf (3/10) (aiEnhancedWeight routeOptions)
     + weightOf (1/10) (popularityWeight routeOptions) = 13/10
   \<and> fst (getRecommendations mergeEngines emptyDb ''u'' routeOptions)
       = [Call_findSimilarItems, Call_getContentRecommendations,
          Call_getEnhancedRecommendations, Call_getPopularSongs 4]
   \<and> map (\<lambda>r. (song_id (rec_song r), recommendationScore r, rank r))
        (snd (getRecommendations mergeEngines emptyDb ''u'' routeOptions))
       = [(''a'', 2/5, Some 1), (''b'', 1/5, Some 2)]"
proof -
  have 1: "weightOf (3/10) (collaborativeWeight routeOptions)
     + weightOf (3/10) (contentBasedWeight routeOptions)
     + weightOf (3/10) (aiEnhancedWeight routeOptions)
     + weightOf (1/10) (popularityWeight routeOptions) = 13/10"
    by (simp add: weightOf_def routeOptions_def)
  have 2: "fst (getRecommendations mergeEngines emptyDb ''u'' routeOptions)
       = [Call_findSimilarItems, Call_getContentRecommendations,
          Call_getEnhancedRecommendations, Call_getPopularSongs 4]"
    by (simp add: getRecommendations_def Let_def limitOf_def routeOptions_def popularSlice_def)
  have 3: "map (\<lambda>r. (song_id (rec_song r), recommendationScore r, rank r))
        (snd (getRecommendations mergeEngines emptyDb ''u'' routeOptions))
       = [(''a'', 2/5, Some 1), (''b'', 1/5, Some 2)]"
    by (simp add: getRecommendations_def Let_def mergeEngines_def routeOptions_def limitOf_def
        weightOf_def combineRecs_def addCollaborative_def addScored_def getPopularSongs_def
        findPopular_def emptyDb_def finalRecommendations_def sortDesc_def songA_def songB_def
        blankSong_def)
  show ?thesis using 1 2 3 by simp
qed

lemma getRecommendations_merge:
  "snd (getRecommendations e d u opts)
     = finalRecommendations (limitOf opts)
         (combineRecs (weightOf (3/10) (collaborativeWeight opts))
            (weightOf (3/10) (contentBasedWeight opts)) (weightOf (3/10) (aiEnhancedWeight opts))
            (weightOf (1/10) (popularityWeight opts))
            (findSimilarItems e d u (limitOf opts)) (getContentRecommendations e d u (limitOf opts))
            (getEnhancedRecommendations e d u (limitOf opts))
            (getPopularSongs d (popularSlice (limitOf opts))))"
  by (simp add: getRecommendations_def Let_def)

lemma getRecommendations_scores:
  assumes "distinct (songIds cf_song (findSimilarItems e d u (limitOf opts)))"
    and "distinct (songIds cb_song (getContentRecommendations e d u (limitOf opts)))"
    and "distinct (songIds ai_song (getEnhancedRecommendations e d u (limitOf opts)))"
    and "distinct (map song_id (songs d))"
    and "r \<in> set (snd (getRecommendations e d u opts))"
  shows "recommendationScore r =
      contribution cf_song cf_score (weightOf (3/10) (collaborativeWeight opts))
        (findSimilarItems e d u (limitOf opts)) (song_id (rec_song r))
      + contribution cb_song cb_similarity (weightOf (3/10) (contentBasedWeight opts))
          (getContentRecommendations e d u (limitOf opts)) (song_id (rec_song r))
      + contribution ai_song ai_similarity (weightOf (3/10) (aiEnhancedWeight opts))
          (getEnhancedRecommendations e d u (limitOf opts)) (song_id (rec_song r))
      + contribution cb_song cb_similarity (weightOf (1/10) (popularityWeight opts))
          (getPopularSongs d (popularSlice (limitOf opts))) (song_id (rec_song r))"
  using finalRecommendations_score[OF combineRecs_inv[THEN conjunct1]
      combineRecs_inv[THEN conjunct2] assms(5)[unfolded getRecommendations_merge]]
    scoreAt_combineRecs[OF assms(1-3) distinct_popular_ids[OF assms(4)]]
  by simp

lemma malformed_scenario:
  "map (\<lambda>r. (song_id (rec_song r), recommendationScore r, rank r))
     (snd (getRecommendations mergeEngines catalogue ''u'' malformedOptions))
   = [(''a'', 41/50, Some 1), (''b'', - (7/20), Some 2), (''uzi-1'', - (1/2), Some 3)]"
  by (simp add: getRecommendations_def Let_def mergeEngines_def malformedOptions_def limitOf_def
      weightOf_def popularSlice_def combineRecs_def addCollaborative_def addScored_def
      getPopularSongs_def findPopular_def catalogue_def popularKey_def descKey_def
      finalRecommendations_def sortDesc_def songA_def songB_def uziSong_def blankSong_def)

text \<open>
  C5, amended. The hybrid entry point does not validate its weights. For every weight
  configuration, also one whose weights sum to more than 1 or that holds a negative weight, it
  consults all four sources and merges their results under the weights exactly as given: a
  weight that is passed is used unchanged, whatever its value, and one that is missing takes its
  default (0.3, 0.3, 0.3, 0.1). The ranking returned is the merge under these weights cut to
  \<open>limit\<close> entries; when no source lists a song twice, every entry's score is the sum over the
  four sources of the source's score for the song times that weight; and whenever the limit is
  positive and some source returns a song the ranking is not empty. No call ends in a
  validation error.
\<close>

theorem weights_are_used_as_given:
  "weightOf dflt (Some x) = x \<and> weightOf dflt None = dflt
   \<and> fst (getRecommendations e d u opts)
     = [Call_findSimilarItems, Call_getContentRecommendations,
        Call_getEnhancedRecommendations, Call_getPopularSongs (popularSlice (limitOf opts))]
   \<and> snd (getRecommendations e d u opts)
     = finalRecommendations (limitOf opts)
         (combineRecs (weightOf (3/10) (collaborativeWeight opts))
            (weightOf (3/10) (contentBasedWeight opts)) (weightOf (3/10) (aiEnhancedWeight opts))
            (weightOf (1/10) (popularityWeight opts))
            (findSimilarItems e d u (limitOf opts)) (getContentRecommendations e d u (limitOf opts))
            (getEnhancedRecommendations e d u (limitOf opts))
            (getPopularSongs d (popularSlice (limitOf opts))))
   \<and> (distinct (songIds cf_song (findSimilarItems e d u (limitOf opts)))
        \<and> distinct (songIds cb_song (getContentRecommendations e d u (limitOf opts)))
        \<and> distinct (songIds ai_song (getEnhancedRecommendations e d u (limitOf opts)))
        \<and> distinct (map song_id (songs d))
      \<longrightarrow> (\<forall>r \<in> set (snd (getRecommendations e d u opts)).
             recommendationScore r =
               contribution cf_song cf_score (weightOf (3/10) (collaborativeWeight opts))
                 (findSimilarItems e d u (limitOf opts)) (song_id (rec_song r))
               + contribution cb_song cb_similarity (weightOf (3/10) (contentBasedWeight opts))
                   (getContentRecommendations e d u (limitOf opts)) (song_id (rec_song r))
               + contribution ai_song ai_similarity (weightOf (3/10) (aiEnhancedWeight opts))
                   (getEnhancedRecommendations e d u (limitOf opts)) (song_id (rec_song r))
               + contribution cb_song cb_similarity (weightOf (1/10) (popularityWeight opts))
                   (getPopularSongs d (popularSlice (limitOf opts))) (song_id (rec_song r))))
   \<and> length (snd (getRecommendations e d u opts)) \<le> limitOf opts
   \<and> (0 < limitOf opts \<and>
        (findSimilarItems e d u (limitOf opts) \<noteq> []
         \<or> getContentRecommendations e d u (limitOf opts) \<noteq> []
         \<or> getEnhancedRecommendations e d u (limitOf opts) \<noteq> []
         \<or> getPopularSongs d (popularSlice (limitOf opts)) \<noteq> [])
        \<longrightarrow> snd (getRecommendations e d u opts) \<noteq> [])"
proof (intro conjI impI ballI)
  show "weightOf dflt (Some x) = x" "weightOf dflt None = dflt"
    by (simp_all add: weightOf_def)
  show "fst (getRecommendations e d u opts)
     = [Call_findSimilarItems, Call_getContentRecommendations,
        Call_getEnhancedRecommendations, Call_getPopularSongs (popularSlice (limitOf opts))]"
    by (simp add: getRecommendations_def Let_def)
  show "snd (getRecommendations e d u opts)
     = finalRecommendations (limitOf opts)
         (combineRecs (weightOf (3/10) (collaborativeWeight opts))
            (weightOf (3/10) (contentBasedWeight opts)) (weightOf (3/10) (aiEnhancedWeight opts))
            (weightOf (1/10) (popularityWeight opts))
            (findSimilarItems e d u (limitOf opts)) (getContentRecommendations e d u (limitOf opts))
            (getEnhancedRecommendations e d u (limitOf opts))
            (getPopularSongs d (popularSlice (limitOf opts))))"
    by (rule getRecommendations_merge)
  show "length (snd (getRecommendations e d u opts)) \<le> limitOf opts"
    by (simp add: getRecommendations_def Let_def length_finalRecommendations)
next
  fix r
  assume "distinct (songIds cf_song (findSimilarItems e d u (limitOf opts)))
        \<and> distinct (songIds cb_song (getContentRecommendations e d u (limitOf opts)))
        \<and> distinct (songIds ai_song (getEnhancedRecommendations e d u (limitOf opts)))
        \<and> distinct (map song_id (songs d))"
    and "r \<in> set (snd (getRecommendations e d u opts))"
  then show "recommendationScore r =
      contribution cf_song cf_score (weightOf (3/10) (collaborativeWeight opts))
        (findSimilarItems e d u (limitOf opts)) (song_id (rec_song r))
      + contribution cb_song cb_similarity (weightOf (3/10) (contentBasedWeight opts))
          (getContentRecommendations e d u (limitOf opts)) (song_id (rec_song r))
      + contribution ai_song ai_similarity (weightOf (3/10) (aiEnhancedWeight opts))
          (getEnhancedRecommendations e d u (limitOf opts)) (song_id (rec_song r))
      + contribution cb_song cb_similarity (weightOf (1/10) (popularityWeight opts))
          (getPopularSongs d (popularSlice (limitOf opts))) (song_id (rec_song r))"
    using getRecommendations_scores[of e d u opts r] by blast
next
  assume a: "0 < limitOf opts \<and>
        (findSimilarItems e d u (limitOf opts) \<noteq> []
         \<or> getContentRecommendations e d u (limitOf opts) \<noteq> []
         \<or> getEnhancedRecommendations e d u (limitOf opts) \<noteq> []
         \<or> getPopularSongs d (popularSlice (limitOf opts)) \<noteq> [])"
  then show "snd (getRecommendations e d u opts) \<noteq> []"
    by (simp add: getRecommendations_def Let_def finalRecommendations_not_Nil
        combineRecs_not_Nil)
qed

theorem weights_are_used_as_given_witness:
  "weightOf (3/10) (collaborativeWeight malformedOptions) = 2
   \<and> weightOf (3/10) (contentBasedWeight malformedOptions) = 3/10
   \<and> weightOf (3/10) (aiEnhancedWeight malformedOptions) = 3/10
   \<and> weightOf (1/10) (popularityWeight malformedOptions) = - 1
   \<and> distinct (songIds cf_song
        (findSimilarItems mergeEngines catalogue ''u'' (limitOf malformedOptions)))
   \<and> distinct (songIds cb_song
        (getContentRecommendations mergeEngines catalogue ''u'' (limitOf malformedOptions)))
   \<and> distinct (songIds ai_song
        (getEnhancedRecommendations mergeEngines catalogue ''u'' (limitOf malformedOptions)))
   \<and> distinct (map song_id (songs catalogue))
   \<and> 0 < limitOf malformedOptions
   \<and> getContentRecommendations mergeEngines catalogue ''u'' (limitOf malformedOptions) \<noteq> []
   \<and> fst (getRecommendations mergeEngines catalogue ''u'' malformedOptions)
       = [Call_findSimilarItems, Call_getContentRecommendations,
          Call_getEnhancedRecommendations, Call_getPopularSongs 4]
   \<and> list_all (\<lambda>r. recommendationScore r =
         contribution cf_song cf_score 2
           (findSimilarItems mergeEngines catalogue ''u'' 20) (song_id (rec_song r))
         + contribution cb_song cb_similarity (3/10)
             (getContentRecommendations mergeEngines catalogue ''u'' 20) (song_id (rec_song r))
         + contribution ai_song ai_similarity (3/10)
             (getEnhancedRecommendations mergeEngines catalogue ''u'' 20) (song_id (rec_song r))
         + contribution cb_song cb_similarity (- 1)
             (getPopularSongs catalogue 4) (song_id (rec_song r)))
       (snd (getRecommendations mergeEngines catalogue ''u'' malformedOptions))
   \<and> map (\<lambda>r. (song_id (rec_song r), recommendationScore r, rank r))
        (snd (getRecommendations mergeEngines catalogue ''u'' malformedOptions))
       = [(''a'', 41/50, Some 1), (''b'', - (7/20), Some 2), (''uzi-1'', - (1/2), Some 3)]
   \<and> length (snd (getRecommendations mergeEngines catalogue ''u'' malformedOptions)) \<le> 20
   \<and> snd (getRecommendations mergeEngines catalogue ''u'' malformedOptions) \<noteq> []"
proof -
  have w: "weightOf (3/10) (collaborativeWeight malformedOptions) = 2"
    "weightOf (3/10) (contentBasedWeight malformedOptions) = 3/10"
    "weightOf (3/10) (aiEnhancedWeight malformedOptions) = 3/10"
    "weightOf (1/10) (popularityWeight malformedOptions) = - 1"
    by (simp_all add: weightOf_def malformedOptions_def)
  have l: "limitOf malformedOptions = 20" "popularSlice 20 = 4"
    by (simp_all add: limitOf_def malformedOptions_def popularSlice_def)
  have h: "distinct (songIds cf_song (findSimilarItems mergeEngines catalogue ''u'' 20))"
    "distinct (songIds cb_song (getContentRecommendations mergeEngines catalogue ''u'' 20))"
    "distinct (songIds ai_song (getEnhancedRecommendations mergeEngines catalogue ''u'' 20))"
    "distinct (map song_id (songs catalogue))"
    by (simp_all add: songIds_def mergeEngines_def catalogue_def songA_def songB_def uziSong_def
        blankSong_def)
  have c: "getContentRecommendations mergeEngines catalogue ''u'' 20 \<noteq> []"
    by (simp add: mergeEngines_def)
  have p: "(0::nat) < 20"
    by simp
  note t = weights_are_used_as_given[of "3/10" 2 mergeEngines catalogue "''u''" malformedOptions,
      unfolded w l]
  have 1: "fst (getRecommendations mergeEngines catalogue ''u'' malformedOptions)
       = [Call_findSimilarItems, Call_getContentRecommendations,
          Call_getEnhancedRecommendations, Call_getPopularSongs 4]"
    using t by blast
  have 2: "list_all (\<lambda>r. recommendationScore r =
         contribution cf_song cf_score 2
           (findSimilarItems mergeEngines catalogue ''u'' 20) (song_id (rec_song r))
         + contribution cb_song cb_similarity (3/10)
             (getContentRecommendations mergeEngines catalogue ''u'' 20) (song_id (rec_song r))
         + contribution ai_song ai_similarity (3/10)
             (getEnhancedRecommendations mergeEngines catalogue ''u'' 20) (song_id (rec_song r))
         + contribution cb_song cb_similarity (- 1)
             (getPopularSongs catalogue 4) (song_id (rec_song r)))
       (snd (getRecommendations mergeEngines catalogue ''u'' malformedOptions))"
    unfolding list_all_iff using t h by blast
  have 3: "length (snd (getRecommendations mergeEngines catalogue ''u'' malformedOptions)) \<le> 20"
    using t by blast
  have 4: "snd (getRecommendations mergeEngines catalogue ''u'' malformedOptions) \<noteq> []"
    using t c p by blast
  show ?thesis
    unfolding l using w h c 1 2 3 4 malformed_scenario by simp
qed

section \<open>Cold start\<close>

lemma sorted_popular: "sorted (map popularKey (take n (sort_key popularKey xs)))"
proof -
  have "sorted (take n (map popularKey (sort_key popularKey xs)))"
    by (intro sorted_wrt_take) simp
  then show ?thesis by (simp add: take_map)
qed

text \<open>
  C3. For a user with no interaction and no rating, \<open>getColdStartRecommendations\<close> returns the
  first \<open>limit\<close> songs in popularity order (total plays, then average rating, then popularity,
  each descending), every entry tagged with the single source \<open>cold-start\<close>, and calls none of
  the three scoring passes: after the two counts it only fetches the popular songs.
\<close>

theorem cold_start_short_circuit:
  assumes "countInteractions d u = Some 0" and "countRatings d u = Some 0"
  shows "(\<forall>r \<in> set (snd (getColdStartRecommendations e d u n)). sources r = [''cold-start''])
       \<and> map rec_song (snd (getColdStartRecommendations e d u n))
           = take n (sort_key popularKey (songs d))
       \<and> sorted (map (\<lambda>r. popularKey (rec_song r)) (snd (getColdStartRecommendations e d u n)))
       \<and> fst (getColdStartRecommendations e d u n)
           = [Count_interactions, Count_ratings, Call_getPopularSongs n]
       \<and> Call_findSimilarItems \<notin> set (fst (getColdStartRecommendations e d u n))
       \<and> Call_getContentRecommendations \<notin> set (fst (getColdStartRecommendations e d u n))
       \<and> Call_getEnhancedRecommendations \<notin> set (fst (getColdStartRecommendations e d u n))"
proof -
  have r: "reachable d"
    using assms(1) by (simp add: countInteractions_def split: if_splits)
  have s: "map rec_song (snd (getColdStartRecommendations e d u n))
           = take n (sort_key popularKey (songs d))"
    using assms r
    by (simp add: getColdStartRecommendations_def getPopularSongs_def findPopular_def comp_def)
  have "sorted (map popularKey (map rec_song (snd (getColdStartRecommendations e d u n))))"
    unfolding s by (rule sorted_popular)
  then have "sorted (map (\<lambda>r. popularKey (rec_song r)) (snd (getColdStartRecommendations e d u n)))"
    by (simp add: comp_def)
  moreover have "\<forall>r \<in> set (snd (getColdStartRecommendations e d u n)). sources r = [''cold-start'']"
    using assms by (auto simp: getColdStartRecommendations_def)
  moreover have "fst (getColdStartRecommendations e d u n)
           = [Count_interactions, Count_ratings, Call_getPopularSongs n]"
    using assms by (simp add: getColdStartRecommendations_def)
  ultimately show ?thesis
    using s by simp
qed

theorem cold_start_short_circuit_witness:
  "countInteractions catalogue ''new user'' = Some 0
   \<and> countRatings catalogue ''new user'' = Some 0
   \<and> list_all (\<lambda>r. sources r = [''cold-start''])
         (snd (getColdStartRecommendations mergeEngines catalogue ''new user'' 2))
   \<and> map (\<lambda>r. song_id (rec_song r))
        (snd (getColdStartRecommendations mergeEngines catalogue ''new user'' 2))
       = [''a'', ''uzi-1'']
   \<and> fst (getColdStartRecommendations mergeEngines catalogue ''new user'' 2)
       = [Count_interactions, Count_ratings, Call_getPopularSongs 2]"
proof -
  have c: "countInteractions catalogue ''new user'' = Some 0"
    "countRatings catalogue ''new user'' = Some 0"
    by (simp_all add: countInteractions_def countRatings_def catalogue_def)
  have p: "map song_id (take 2 (sort_key popularKey (songs catalogue))) = [''a'', ''uzi-1'']"
    by (simp add: catalogue_def popularKey_def descKey_def songA_def songB_def uziSong_def
        blankSong_def)
  have "map (\<lambda>r. song_id (rec_song r))
        (snd (getColdStartRecommendations mergeEngines catalogue ''new user'' 2))
      = map song_id (map rec_song
          (snd (getColdStartRecommendations mergeEngines catalogue ''new user'' 2)))"
    by (simp add: comp_def)
  also have "\<dots> = [''a'', ''uzi-1'']"
    using cold_start_short_circuit[OF c, of mergeEngines 2] p by simp
  finally show ?thesis
    using cold_start_short_circuit[OF c, of mergeEngines 2] c by (simp add: list_all_iff)
qed

end
